theory Spec2Isabelle
  imports Main "HOL-Library.Char_ord" "HOL-Library.List_Lexorder" "HOL-Library.AList"
begin

section \<open>Python values and exceptions\<close>

text \<open>
  The handlers and the migration runner work on dynamically typed values: request bodies
  decoded from JSON, query results and the result dictionaries they return.  A Python
  \<open>dict\<close> with string keys is an association list in insertion order, \<open>None\<close> is
  \<open>JNull\<close>.  A number written with a fraction or an exponent is kept as its decimal
  mantissa and exponent; binary rounding is not modelled.  \<open>JNonFinite\<close> holds the
  constants \<open>NaN\<close>, \<open>Infinity\<close> and \<open>-Infinity\<close> that Python's decoder accepts.
\<close>

datatype json =
    JNull
  | JBool bool
  | JInt int
  | JFloat int int
  | JNonFinite string
  | JStr string
  | JArr "json list"
  | JObj "(string \<times> json) list"

type_synonym dict = "(string \<times> json) list"

text \<open>
  Exceptions are values.  Each carries the message that \<open>str(e)\<close> gives; the errors of
  the database driver are the ones the environment hands out.
\<close>

datatype error =
    OperationalError string
  | ProgrammingError string
  | ValueError string
  | KeyError string
  | IndexError string
  | TypeError string
  | AttributeError string
  | JSONDecodeError string
  | InterfaceError string
  | InternalError string

fun str :: "error \<Rightarrow> string" where
  "str (OperationalError m) = m"
| "str (ProgrammingError m) = m"
| "str (ValueError m) = m"
| "str (KeyError k) = [CHR 0x27] @ k @ [CHR 0x27]"
| "str (IndexError m) = m"
| "str (TypeError m) = m"
| "str (AttributeError m) = m"
| "str (JSONDecodeError m) = m"
| "str (InterfaceError m) = m"
| "str (InternalError m) = m"

text \<open>Decimal text of a natural number, as an f-string formats \<open>len(...)\<close>.\<close>

definition digit :: "nat \<Rightarrow> char" where
  "digit d = char_of (48 + d)"

function show_nat :: "nat \<Rightarrow> string" where
  "show_nat n = (if n < 10 then [digit n] else show_nat (n div 10) @ [digit (n mod 10)])"
  by pat_completeness auto
termination
  by (relation "measure id") auto

declare show_nat.simps [simp del]


subsection \<open>Operations of Python on these values\<close>

text \<open>Truth value testing: \<open>None\<close>, \<open>False\<close>, zero and the empty containers are false.\<close>

fun truthy :: "json \<Rightarrow> bool" where
  "truthy JNull = False"
| "truthy (JBool b) = b"
| "truthy (JInt i) = (i \<noteq> 0)"
| "truthy (JFloat m e) = (m \<noteq> 0)"
| "truthy (JNonFinite c) = True"
| "truthy (JStr s) = (s \<noteq> [])"
| "truthy (JArr xs) = (xs \<noteq> [])"
| "truthy (JObj kvs) = (kvs \<noteq> [])"

text \<open>\<open>key in d\<close>, \<open>d[key]\<close> and \<open>d.get(key, default)\<close> on a dict.\<close>

definition has_key :: "dict \<Rightarrow> string \<Rightarrow> bool" where
  "has_key d k = (map_of d k \<noteq> None)"

definition subscript :: "dict \<Rightarrow> string \<Rightarrow> error + json" where
  "subscript d k = (case map_of d k of None \<Rightarrow> Inl (KeyError k) | Some v \<Rightarrow> Inr v)"

definition get_or :: "dict \<Rightarrow> string \<Rightarrow> json \<Rightarrow> json" where
  "get_or d k dflt = (case map_of d k of None \<Rightarrow> dflt | Some v \<Rightarrow> v)"

text \<open>
  \<open>x.get(key, default)\<close> on a value that came out of a JSON document: only a dict has the
  method.
\<close>

fun py_get :: "json \<Rightarrow> string \<Rightarrow> json \<Rightarrow> error + json" where
  "py_get (JObj d) k dflt = Inr (get_or d k dflt)"
| "py_get v k dflt = Inl (AttributeError ''object has no attribute get'')"

text \<open>
  \<open>for x in v\<close>: a list yields its elements, a dict its keys, a string its characters;
  the other values are not iterable.
\<close>

fun py_iter :: "json \<Rightarrow> error + json list" where
  "py_iter (JArr xs) = Inr xs"
| "py_iter (JObj d) = Inr (map (\<lambda>kv. JStr (fst kv)) d)"
| "py_iter (JStr s) = Inr (map (\<lambda>c. JStr [c]) s)"
| "py_iter v = Inl (TypeError ''object is not iterable'')"

text \<open>
  \<open>dict(pairs)\<close>: a key that comes again keeps its place and takes the later value.
\<close>

definition py_dict :: "(string \<times> json) list \<Rightarrow> dict" where
  "py_dict pairs = foldl (\<lambda>d kv. AList.update (fst kv) (snd kv) d) [] pairs"

section \<open>The migration runner (migration.py)\<close>

subsection \<open>Data\<close>

text \<open>
  The three embedded SQL texts are named, not spelled out: \<open>get_initial_schema_migration\<close>,
  \<open>get_etymology_tables_migration\<close> and \<open>get_user_preferences_migration\<close> return constant
  strings, each of the form \<open>BEGIN; CREATE ... IF NOT EXISTS ...; COMMIT;\<close>.
\<close>

datatype script = Initial_schema | Etymology_tables | User_preferences

definition get_initial_schema_migration :: script where
  "get_initial_schema_migration = Initial_schema"

definition get_etymology_tables_migration :: script where
  "get_etymology_tables_migration = Etymology_tables"

definition get_user_preferences_migration :: script where
  "get_user_preferences_migration = User_preferences"

record migration =
  version :: string
  description :: string
  sql :: script

text \<open>
  A row of \<open>schema_migrations\<close>.  The columns \<open>applied_at\<close> (always \<open>NOW()\<close>) and
  \<open>checksum\<close> (never written) are left out.
\<close>

record ledger_row =
  l_version :: string
  l_execution_time_ms :: int
  l_description :: string

text \<open>
  The committed database, as far as the runner sees it: the ledger table (\<open>None\<close> while
  the table does not exist) and the log of the scripts that were executed and committed.
\<close>

record schema_db =
  ledger :: "ledger_row list option"
  scripts_run :: "script list"

text \<open>
  The runner object: whether \<open>self.connection\<close> is set, whether the transaction open
  on that connection has failed, and the database behind it.  Every method either commits
  or rolls back what it wrote before it returns, so no uncommitted write outlives a call.
  A statement that raises leaves the transaction failed; until a rollback the server
  refuses every further statement on the connection.
\<close>

record runner =
  connection :: bool
  failed_transaction :: bool
  db :: schema_db

text \<open>
  What the runner cannot decide itself is given by the environment: the variable
  \<open>SECRET_ARN\<close>, for each driver operation whether it raises, and the time each
  migration is measured to take.
\<close>

datatype operation =
    Connect
  | Create_table
  | Commit_table
  | Select_versions
  | Run_script script
  | Record_version string
  | Commit_migration string

record environment =
  secret_arn :: "string option"
  raises :: "operation \<Rightarrow> error option"
  elapsed_ms :: "string \<Rightarrow> int"

text \<open>
  \<open>cursor.execute\<close>: the error it raises, if it does.  In a failed transaction that is
  the server's refusal, whatever the statement.
\<close>

definition in_failed_transaction :: error where
  "in_failed_transaction =
     InternalError ''current transaction is aborted, commands ignored until end of transaction block''"

definition cursor_execute :: "environment \<Rightarrow> runner \<Rightarrow> operation \<Rightarrow> error option" where
  "cursor_execute env r op =
     (if failed_transaction r then Some in_failed_transaction else raises env op)"

text \<open>\<open>connection.rollback()\<close> ends the failed transaction.\<close>

definition rollback :: "runner \<Rightarrow> runner" where
  "rollback r = r\<lparr>failed_transaction := False\<rparr>"

definition ledger_versions :: "schema_db \<Rightarrow> string list" where
  "ledger_versions d = (case ledger d of None \<Rightarrow> [] | Some rows \<Rightarrow> map l_version rows)"

subsection \<open>Statements on the ledger\<close>

text \<open>\<open>CREATE TABLE IF NOT EXISTS schema_migrations\<close>\<close>

definition create_table_if_not_exists :: "schema_db \<Rightarrow> schema_db" where
  "create_table_if_not_exists d =
     (case ledger d of None \<Rightarrow> d\<lparr>ledger := Some []\<rparr> | Some _ \<Rightarrow> d)"

text \<open>
  \<open>INSERT ... ON CONFLICT (version) DO UPDATE SET applied_at = NOW(), execution_time_ms = %s\<close>:
  a recorded version keeps its row and its description and gets the new time, a new one is
  appended.
\<close>

fun upsert_row :: "string \<Rightarrow> int \<Rightarrow> string \<Rightarrow> ledger_row list \<Rightarrow> ledger_row list" where
  "upsert_row v t d [] = [\<lparr>l_version = v, l_execution_time_ms = t, l_description = d\<rparr>]"
| "upsert_row v t d (row # rows) =
     (if l_version row = v then row\<lparr>l_execution_time_ms := t\<rparr> # rows
      else row # upsert_row v t d rows)"

definition undefined_table :: error where
  "undefined_table = ProgrammingError ''relation \"schema_migrations\" does not exist''"

subsection \<open>The methods of MigrationRunner\<close>

text \<open>\<open>MigrationRunner.get_db_connection\<close>; the helper of the same name in \<open>db_utils.py\<close> comes later.\<close>

definition runner_get_db_connection :: "environment \<Rightarrow> runner \<Rightarrow> (error + unit) \<times> runner" where
  "runner_get_db_connection env r =
     (if connection r then (Inr (), r)
      else case secret_arn env of
        None \<Rightarrow> (Inl (ValueError ''SECRET_ARN environment variable not set''), r)
      | Some arn \<Rightarrow>
          if arn = [] then (Inl (ValueError ''SECRET_ARN environment variable not set''), r)
          else (case raises env Connect of
                  Some e \<Rightarrow> (Inl e, r)
                | None \<Rightarrow> (Inr (), r\<lparr>connection := True, failed_transaction := False\<rparr>)))"

definition close_connection :: "runner \<Rightarrow> runner" where
  "close_connection r = (if connection r then r\<lparr>connection := False\<rparr> else r)"

definition ensure_migrations_table :: "environment \<Rightarrow> runner \<Rightarrow> (error + unit) \<times> runner" where
  "ensure_migrations_table env r =
     (case runner_get_db_connection env r of
        (Inl e, r1) \<Rightarrow> (Inl e, r1)
      | (Inr _, r1) \<Rightarrow>
          (case cursor_execute env r1 Create_table of
             Some e \<Rightarrow> (Inl e, rollback r1)
           | None \<Rightarrow>
               (case raises env Commit_table of
                  Some e \<Rightarrow> (Inl e, rollback r1)
                | None \<Rightarrow> (Inr (), r1\<lparr>db := create_table_if_not_exists (db r1)\<rparr>))))"

text \<open>\<open>cursor.execute('SELECT version FROM schema_migrations ORDER BY version')\<close> and \<open>fetchall\<close>\<close>

definition select_versions :: "environment \<Rightarrow> runner \<Rightarrow> error + string list" where
  "select_versions env r =
     (case cursor_execute env r Select_versions of
        Some e \<Rightarrow> Inl e
      | None \<Rightarrow>
          (case ledger (db r) of
             None \<Rightarrow> Inl undefined_table
           | Some rows \<Rightarrow> Inr (sort (map l_version rows))))"

text \<open>
  The connection is fetched before the \<open>try\<close>, so its error propagates; an error of the
  query is caught and the empty list returned.  The \<open>except\<close> branch does not roll back:
  the transaction in which the query failed stays open, and failed, on the connection the
  runner keeps.
\<close>

definition get_applied_migrations :: "environment \<Rightarrow> runner \<Rightarrow> (error + string list) \<times> runner" where
  "get_applied_migrations env r =
     (case runner_get_db_connection env r of
        (Inl e, r1) \<Rightarrow> (Inl e, r1)
      | (Inr _, r1) \<Rightarrow>
          (case select_versions env r1 of
             Inl e \<Rightarrow> (Inr [], r1\<lparr>failed_transaction := True\<rparr>)
           | Inr versions \<Rightarrow> (Inr versions, r1)))"

definition get_migrations :: "migration list" where
  "get_migrations =
     [\<lparr>version = ''20250101_120000'',
       description = ''Initial PhaserAI database schema'',
       sql = get_initial_schema_migration\<rparr>,
      \<lparr>version = ''20250102_143000'',
       description = ''Add etymology and validation tables'',
       sql = get_etymology_tables_migration\<rparr>,
      \<lparr>version = ''20250103_091500'',
       description = ''Add user preferences table'',
       sql = get_user_preferences_migration\<rparr>]"

definition get_pending_migrations :: "environment \<Rightarrow> runner \<Rightarrow> (error + migration list) \<times> runner" where
  "get_pending_migrations env r =
     (let all_migrations = get_migrations in
      case get_applied_migrations env r of
        (Inl e, r1) \<Rightarrow> (Inl e, r1)
      | (Inr applied_versions, r1) \<Rightarrow>
          (Inr [m \<leftarrow> all_migrations. version m \<notin> set applied_versions], r1))"

text \<open>
  \<open>apply_migration\<close>.  The script brings its own \<open>COMMIT\<close>, so once it has run it stays;
  the ledger row is written in a second statement and committed by \<open>connection.commit()\<close>.
  The \<open>except\<close> branch rolls back what is not committed yet and re-raises.  When the
  script has run, the transaction is not a failed one, so the second statement raises only
  by itself.
\<close>

definition record_migration :: "environment \<Rightarrow> migration \<Rightarrow> int \<Rightarrow> schema_db \<Rightarrow> error + schema_db" where
  "record_migration env m t d =
     (case raises env (Record_version (version m)) of
        Some e \<Rightarrow> Inl e
      | None \<Rightarrow>
          (case ledger d of
             None \<Rightarrow> Inl undefined_table
           | Some rows \<Rightarrow> Inr (d\<lparr>ledger := Some (upsert_row (version m) t (description m) rows)\<rparr>)))"

definition apply_migration :: "environment \<Rightarrow> runner \<Rightarrow> migration \<Rightarrow> (error + int) \<times> runner" where
  "apply_migration env r m =
     (case runner_get_db_connection env r of
        (Inl e, r1) \<Rightarrow> (Inl e, r1)
      | (Inr _, r1) \<Rightarrow>
          (case cursor_execute env r1 (Run_script (sql m)) of
             Some e \<Rightarrow> (Inl e, rollback r1)
           | None \<Rightarrow>
               (let d1 = (db r1)\<lparr>scripts_run := scripts_run (db r1) @ [sql m]\<rparr>;
                    execution_time = elapsed_ms env (version m)
                in case record_migration env m execution_time d1 of
                     Inl e \<Rightarrow> (Inl e, rollback (r1\<lparr>db := d1\<rparr>))
                   | Inr d2 \<Rightarrow>
                       (case raises env (Commit_migration (version m)) of
                          Some e \<Rightarrow> (Inl e, rollback (r1\<lparr>db := d1\<rparr>))
                        | None \<Rightarrow> (Inr execution_time, r1\<lparr>db := d2\<rparr>)))))"

text \<open>The \<open>for\<close> loop of \<open>run_migrations\<close>, with its two accumulators.\<close>

definition applied_entry :: "migration \<Rightarrow> int \<Rightarrow> json" where
  "applied_entry m t =
     JObj [(''version'', JStr (version m)),
           (''description'', JStr (description m)),
           (''execution_time_ms'', JInt t)]"

fun apply_pending ::
  "environment \<Rightarrow> runner \<Rightarrow> migration list \<Rightarrow> json list \<Rightarrow> int \<Rightarrow> (error + json list \<times> int) \<times> runner"
where
  "apply_pending env r [] applied_migrations total_time = (Inr (applied_migrations, total_time), r)"
| "apply_pending env r (m # ms) applied_migrations total_time =
     (case apply_migration env r m of
        (Inl e, r1) \<Rightarrow> (Inl e, r1)
      | (Inr execution_time, r1) \<Rightarrow>
          apply_pending env r1 ms (applied_migrations @ [applied_entry m execution_time])
            (total_time + execution_time))"

definition migration_failed :: "error \<Rightarrow> dict" where
  "migration_failed e =
     [(''success'', JBool False),
      (''message'', JStr (''Migration failed: '' @ str e)),
      (''error'', JStr (str e))]"

definition run_migrations :: "environment \<Rightarrow> runner \<Rightarrow> dict \<times> runner" where
  "run_migrations env r =
     (case ensure_migrations_table env r of
        (Inl e, r1) \<Rightarrow> (migration_failed e, r1)
      | (Inr _, r1) \<Rightarrow>
          (case get_pending_migrations env r1 of
             (Inl e, r2) \<Rightarrow> (migration_failed e, r2)
           | (Inr pending, r2) \<Rightarrow>
               if pending = [] then
                 ([(''success'', JBool True),
                   (''message'', JStr ''No pending migrations''),
                   (''applied_count'', JInt 0),
                   (''applied_migrations'', JArr [])], r2)
               else
                 (case apply_pending env r2 pending [] 0 of
                    (Inl e, r3) \<Rightarrow> (migration_failed e, r3)
                  | (Inr (applied_migrations, total_time), r3) \<Rightarrow>
                      ([(''success'', JBool True),
                        (''message'', JStr (''Applied '' @ show_nat (length applied_migrations)
                                            @ '' migration(s)'')),
                        (''applied_count'', JInt (int (length applied_migrations))),
                        (''applied_migrations'', JArr applied_migrations),
                        (''total_execution_time_ms'', JInt total_time)], r3))))"

definition status_failed :: "error \<Rightarrow> dict" where
  "status_failed e = [(''success'', JBool False), (''error'', JStr (str e))]"

definition get_status :: "environment \<Rightarrow> runner \<Rightarrow> dict \<times> runner" where
  "get_status env r =
     (case ensure_migrations_table env r of
        (Inl e, r1) \<Rightarrow> (status_failed e, r1)
      | (Inr _, r1) \<Rightarrow>
          (let all_migrations = get_migrations in
           case get_applied_migrations env r1 of
             (Inl e, r2) \<Rightarrow> (status_failed e, r2)
           | (Inr applied, r2) \<Rightarrow>
               (case get_pending_migrations env r2 of
                  (Inl e, r3) \<Rightarrow> (status_failed e, r3)
                | (Inr pending, r3) \<Rightarrow>
                    ([(''success'', JBool True),
                      (''total_migrations'', JInt (int (length all_migrations))),
                      (''applied_count'', JInt (int (length applied))),
                      (''pending_count'', JInt (int (length pending))),
                      (''applied_migrations'', JArr (map JStr applied)),
                      (''pending_migrations'', JArr (map (\<lambda>m. JStr (version m)) pending))], r3))))"

subsection \<open>Notions used to state the runner's properties\<close>

text \<open>
  The connection can be had: it is open already, with no failed transaction on it, or
  none is open, \<open>SECRET_ARN\<close> is set and connecting does not raise.  A runner is created
  without a connection, so this is the state in which \<open>handler\<close> calls it.
\<close>

definition connects :: "environment \<Rightarrow> runner \<Rightarrow> bool" where
  "connects env r =
     (if connection r then \<not> failed_transaction r
      else (case secret_arn env of None \<Rightarrow> False | Some arn \<Rightarrow> arn \<noteq> [] \<and> raises env Connect = None))"

text \<open>
  The error with which the application of a migration raises, if it does: the first of its
  three driver operations that raises.
\<close>

definition failure_of :: "environment \<Rightarrow> migration \<Rightarrow> error option" where
  "failure_of env m =
     (case raises env (Run_script (sql m)) of
        Some e \<Rightarrow> Some e
      | None \<Rightarrow>
          (case raises env (Record_version (version m)) of
             Some e \<Rightarrow> Some e
           | None \<Rightarrow> raises env (Commit_migration (version m))))"

text \<open>The ledger rows after the migrations \<open>ms\<close> have been recorded one after the other.\<close>

definition ledger_after :: "environment \<Rightarrow> migration list \<Rightarrow> ledger_row list \<Rightarrow> ledger_row list" where
  "ledger_after env ms rows =
     foldl (\<lambda>rows m. upsert_row (version m) (elapsed_ms env (version m)) (description m) rows) rows ms"

text \<open>
  The specification's \<open>pending()\<close>: all known migrations, in the order of the embedded list,
  minus the versions present in the ledger.
\<close>

definition known_minus_ledger :: "schema_db \<Rightarrow> migration list" where
  "known_minus_ledger d = [m \<leftarrow> get_migrations. version m \<notin> set (ledger_versions d)]"

section \<open>The JSON decoder used by the request helpers\<close>

text \<open>
  \<open>extract_body\<close> hands a string body to \<open>json.loads\<close> of the standard library.  The
  decoder is modelled after its scanner: whitespace is blank, tab, line feed and carriage
  return; a document is one value with whitespace around it and nothing after it; objects
  and arrays nest; a string may not contain a raw control character; a number is an
  integer unless it has a fraction or an exponent.  Characters are the 8-bit characters of
  \<open>string\<close>: an escape \<open>\uXXXX\<close> below 256 is decoded, a larger one is kept as written.
  Every failure is the decoder's one exception, \<open>JSONDecodeError\<close>.
\<close>

definition is_ws :: "char \<Rightarrow> bool" where
  "is_ws c = (c = CHR '' '' \<or> c = CHR 0x09 \<or> c = CHR 0x0A \<or> c = CHR 0x0D)"

definition skip_ws :: "string \<Rightarrow> string" where
  "skip_ws s = dropWhile is_ws s"

definition is_digit :: "char \<Rightarrow> bool" where
  "is_digit c = (CHR ''0'' \<le> c \<and> c \<le> CHR ''9'')"

definition digit_value :: "char \<Rightarrow> int" where
  "digit_value c = int (of_char c) - 48"

definition digits_value :: "string \<Rightarrow> int" where
  "digits_value ds = foldl (\<lambda>n c. 10 * n + digit_value c) 0 ds"

definition hex_value :: "char \<Rightarrow> nat option" where
  "hex_value c =
     (if CHR ''0'' \<le> c \<and> c \<le> CHR ''9'' then Some (of_char c - 48)
      else if CHR ''a'' \<le> c \<and> c \<le> CHR ''f'' then Some (of_char c - 87)
      else if CHR ''A'' \<le> c \<and> c \<le> CHR ''F'' then Some (of_char c - 55)
      else None)"

definition hex4 :: "char \<Rightarrow> char \<Rightarrow> char \<Rightarrow> char \<Rightarrow> nat option" where
  "hex4 a b c d =
     (case (hex_value a, hex_value b, hex_value c, hex_value d) of
        (Some w, Some x, Some y, Some z) \<Rightarrow> Some (((w * 16 + x) * 16 + y) * 16 + z)
      | _ \<Rightarrow> None)"

text \<open>The simple escapes: the character after the backslash and what it stands for.\<close>

definition simple_escape :: "char \<Rightarrow> char option" where
  "simple_escape c =
     (if c = CHR 0x22 then Some (CHR 0x22)
      else if c = CHR 0x5C then Some (CHR 0x5C)
      else if c = CHR ''/'' then Some (CHR ''/'')
      else if c = CHR ''b'' then Some (CHR 0x08)
      else if c = CHR ''f'' then Some (CHR 0x0C)
      else if c = CHR ''n'' then Some (CHR 0x0A)
      else if c = CHR ''r'' then Some (CHR 0x0D)
      else if c = CHR ''t'' then Some (CHR 0x09)
      else None)"

text \<open>
  The characters of a string after its opening quote, up to the closing quote: the decoded
  text and the rest of the input.
\<close>

fun scan_string :: "string \<Rightarrow> string \<Rightarrow> (string \<times> string) option" where
  "scan_string acc [] = None"
| "scan_string acc (c # cs) =
     (if c = CHR 0x22 then Some (acc, cs)
      else if c = CHR 0x5C then
        (case cs of
           [] \<Rightarrow> None
         | e # cs1 \<Rightarrow>
             if e = CHR ''u'' then
               (case cs1 of
                  h1 # h2 # h3 # h4 # cs2 \<Rightarrow>
                    (case hex4 h1 h2 h3 h4 of
                       None \<Rightarrow> None
                     | Some n \<Rightarrow>
                         if n < 256 then scan_string (acc @ [char_of n]) cs2
                         else scan_string (acc @ [c, e, h1, h2, h3, h4]) cs2)
                | _ \<Rightarrow> None)
             else
               (case simple_escape e of
                  None \<Rightarrow> None
                | Some d \<Rightarrow> scan_string (acc @ [d]) cs1))
      else if (of_char c :: nat) < 32 then None
      else scan_string (acc @ [c]) cs)"

text \<open>
  A number at the head of the input: \<open>-?(0|[1-9][0-9]*)(\.[0-9]+)?([eE][-+]?[0-9]+)?\<close>,
  the longest match.  A fraction or an exponent that is not complete does not belong to the
  number.
\<close>

definition scan_int_part :: "string \<Rightarrow> (string \<times> string) option" where
  "scan_int_part s =
     (case s of
        [] \<Rightarrow> None
      | c # cs \<Rightarrow>
          if c = CHR ''0'' then Some ([c], cs)
          else if is_digit c then Some (takeWhile is_digit s, dropWhile is_digit s)
          else None)"

definition scan_fraction :: "string \<Rightarrow> (string \<times> string) option" where
  "scan_fraction s =
     (case s of
        c # d # cs \<Rightarrow>
          if c = CHR ''.'' \<and> is_digit d
          then Some (takeWhile is_digit (d # cs), dropWhile is_digit (d # cs))
          else None
      | _ \<Rightarrow> None)"

definition scan_exponent :: "string \<Rightarrow> (int \<times> string) option" where
  "scan_exponent s =
     (case s of
        c # cs \<Rightarrow>
          if c = CHR ''e'' \<or> c = CHR ''E'' then
            (case cs of
               d # ds \<Rightarrow>
                 if is_digit d
                 then Some (digits_value (takeWhile is_digit cs), dropWhile is_digit cs)
                 else if (d = CHR ''+'' \<or> d = CHR ''-'') \<and> ds \<noteq> [] \<and> is_digit (hd ds)
                 then Some ((if d = CHR ''-'' then - 1 else 1) * digits_value (takeWhile is_digit ds),
                            dropWhile is_digit ds)
                 else None
             | [] \<Rightarrow> None)
          else None
      | [] \<Rightarrow> None)"

definition scan_number :: "string \<Rightarrow> (json \<times> string) option" where
  "scan_number s =
     (let negative = (s \<noteq> [] \<and> hd s = CHR ''-'');
          sign = (if negative then - 1 else 1 :: int);
          s1 = (if negative then tl s else s)
      in case scan_int_part s1 of
           None \<Rightarrow> None
         | Some (int_digits, s2) \<Rightarrow>
             (case scan_fraction s2 of
                Some (frac_digits, s3) \<Rightarrow>
                  (case scan_exponent s3 of
                     Some (e, s4) \<Rightarrow>
                       Some (JFloat (sign * digits_value (int_digits @ frac_digits))
                               (e - int (length frac_digits)), s4)
                   | None \<Rightarrow>
                       Some (JFloat (sign * digits_value (int_digits @ frac_digits))
                               (- int (length frac_digits)), s3))
              | None \<Rightarrow>
                  (case scan_exponent s2 of
                     Some (e, s4) \<Rightarrow> Some (JFloat (sign * digits_value int_digits) e, s4)
                   | None \<Rightarrow> Some (JInt (sign * digits_value int_digits), s2))))"

text \<open>A fixed word at the head of the input.\<close>

definition literal :: "string \<Rightarrow> json \<Rightarrow> string \<Rightarrow> (json \<times> string) option" where
  "literal word v s =
     (if take (length word) s = word then Some (v, drop (length word) s) else None)"

text \<open>
  The scanner proper.  The first argument bounds the number of nested calls; each call
  but the one from an array or object to its next value has consumed a character, so
  twice the length of the document is always enough (see \<open>json_loads\<close>).
\<close>

fun scan_once :: "nat \<Rightarrow> string \<Rightarrow> (json \<times> string) option"
  and scan_array :: "nat \<Rightarrow> json list \<Rightarrow> string \<Rightarrow> (json \<times> string) option"
  and scan_object :: "nat \<Rightarrow> (string \<times> json) list \<Rightarrow> string \<Rightarrow> (json \<times> string) option"
where
  "scan_once 0 s = None"
| "scan_once (Suc n) [] = None"
| "scan_once (Suc n) (c # cs) =
     (if c = CHR 0x22 then
        (case scan_string [] cs of None \<Rightarrow> None | Some (text, rest) \<Rightarrow> Some (JStr text, rest))
      else if c = CHR ''{'' then
        (case skip_ws cs of
           [] \<Rightarrow> None
         | d # ds \<Rightarrow>
             if d = CHR ''}'' then Some (JObj [], ds)
             else scan_object n [] (d # ds))
      else if c = CHR ''['' then
        (case skip_ws cs of
           [] \<Rightarrow> None
         | d # ds \<Rightarrow>
             if d = CHR '']'' then Some (JArr [], ds)
             else scan_array n [] (d # ds))
      else if c = CHR ''n'' then literal ''null'' JNull (c # cs)
      else if c = CHR ''t'' then literal ''true'' (JBool True) (c # cs)
      else if c = CHR ''f'' then literal ''false'' (JBool False) (c # cs)
      else
        (case scan_number (c # cs) of
           Some r \<Rightarrow> Some r
         | None \<Rightarrow>
             if c = CHR ''N'' then literal ''NaN'' (JNonFinite ''NaN'') (c # cs)
             else if c = CHR ''I'' then literal ''Infinity'' (JNonFinite ''Infinity'') (c # cs)
             else if c = CHR ''-'' then literal ''-Infinity'' (JNonFinite ''-Infinity'') (c # cs)
             else None))"
| "scan_array 0 items s = None"
| "scan_array (Suc n) items s =
     (case scan_once n s of
        None \<Rightarrow> None
      | Some (v, rest) \<Rightarrow>
          (case skip_ws rest of
             [] \<Rightarrow> None
           | d # ds \<Rightarrow>
               if d = CHR '']'' then Some (JArr (items @ [v]), ds)
               else if d = CHR '','' then scan_array n (items @ [v]) (skip_ws ds)
               else None))"
| "scan_object 0 pairs s = None"
| "scan_object (Suc n) pairs s =
     (case s of
        [] \<Rightarrow> None
      | q # cs \<Rightarrow>
          if q \<noteq> CHR 0x22 then None
          else
            (case scan_string [] cs of
               None \<Rightarrow> None
             | Some (key, rest) \<Rightarrow>
                 (case skip_ws rest of
                    [] \<Rightarrow> None
                  | colon # after_colon \<Rightarrow>
                      if colon \<noteq> CHR '':'' then None
                      else
                        (case scan_once n (skip_ws after_colon) of
                           None \<Rightarrow> None
                         | Some (v, rest1) \<Rightarrow>
                             (case skip_ws rest1 of
                                [] \<Rightarrow> None
                              | d # ds \<Rightarrow>
                                  if d = CHR ''}'' then Some (JObj (py_dict (pairs @ [(key, v)])), ds)
                                  else if d = CHR '','' then scan_object n (pairs @ [(key, v)]) (skip_ws ds)
                                  else None)))))"

definition json_loads :: "string \<Rightarrow> error + json" where
  "json_loads s =
     (case scan_once (2 * length s + 2) (skip_ws s) of
        None \<Rightarrow> Inl (JSONDecodeError ''Expecting value'')
      | Some (v, rest) \<Rightarrow>
          if skip_ws rest = [] then Inr v else Inl (JSONDecodeError ''Extra data''))"

section \<open>The database and its driver, as the handlers use them\<close>

subsection \<open>Tables\<close>

text \<open>
  A row is a dict from column name to value, as \<open>execute_query\<close> hands it to the
  handlers; a table is the list of its rows in the order of their creation.  The counter
  \<open>clock\<close> numbers the rows: it stamps \<open>created_at\<close> and picks the generated identifier.
\<close>

record database =
  users_table :: "dict list"
  languages_table :: "dict list"
  words_table :: "dict list"
  translations_table :: "dict list"
  clock :: nat

definition col :: "dict \<Rightarrow> string \<Rightarrow> json" where
  "col row c = get_or row c JNull"

text \<open>SQL's \<open>=\<close>: a comparison with \<open>NULL\<close> never holds.\<close>

definition sql_eq :: "json \<Rightarrow> json \<Rightarrow> bool" where
  "sql_eq a b = (a \<noteq> JNull \<and> b \<noteq> JNull \<and> a = b)"

definition users_columns :: "string list" where
  "users_columns = [''user_id'', ''email'', ''username'', ''created_at'']"

definition languages_columns :: "string list" where
  "languages_columns =
     [''id'', ''user_id'', ''name'', ''phonemes'', ''alphabet_mappings'', ''syllables'', ''rules'',
      ''created_at'']"

definition words_columns :: "string list" where
  "words_columns =
     [''id'', ''language_id'', ''word'', ''ipa'', ''pos'', ''is_root'', ''embedding'', ''created_at'']"

definition translations_columns :: "string list" where
  "translations_columns = [''id'', ''word_id'', ''language_code'', ''meaning'', ''created_at'']"

subsection \<open>Statements\<close>

text \<open>
  One constructor for each SQL text of \<open>users.py\<close>, \<open>languages.py\<close> and \<open>words.py\<close>
  that the modelled operations send, with the parameters bound to its placeholders.  The
  three dynamic \<open>UPDATE\<close> statements carry the \<open>SET\<close> fragments the handler has joined
  and the parameter tuple, whose last component is the identifier of the \<open>WHERE\<close> clause.
\<close>

datatype statement =
    Select_language_of_user json json
      \<comment> \<open>\<open>SELECT id FROM app_8b514_languages WHERE id = %s AND user_id = %s\<close>\<close>
  | Select_language_owner json
      \<comment> \<open>\<open>SELECT user_id FROM app_8b514_languages WHERE id = %s\<close>\<close>
  | Select_word_of_user json json
      \<comment> \<open>\<open>SELECT w.id FROM app_8b514_words w JOIN app_8b514_languages l ON w.language_id = l.id
          WHERE w.id = %s AND l.user_id = %s\<close>\<close>
  | Select_words_with_translations "json option"
      \<comment> \<open>the listing with \<open>json_agg\<close>, with or without \<open>WHERE w.language_id = %s\<close>\<close>
  | Insert_language json json json json json json
      \<comment> \<open>\<open>INSERT INTO app_8b514_languages (user_id, name, phonemes, alphabet_mappings,
          syllables, rules) VALUES (...) RETURNING *\<close>\<close>
  | Update_languages "string list" "json list"
      \<comment> \<open>\<open>UPDATE app_8b514_languages SET ... WHERE id = %s RETURNING *\<close>\<close>
  | Insert_word json json json json json json
      \<comment> \<open>\<open>INSERT INTO app_8b514_words (language_id, word, ipa, pos, is_root, embedding)
          VALUES (...) RETURNING *\<close>\<close>
  | Update_words "string list" "json list"
      \<comment> \<open>\<open>UPDATE app_8b514_words SET ... WHERE id = %s RETURNING *\<close>\<close>
  | Insert_translation json json json
      \<comment> \<open>\<open>INSERT INTO app_8b514_translations (word_id, language_code, meaning) VALUES (...)\<close>\<close>
  | Delete_translations json
      \<comment> \<open>\<open>DELETE FROM app_8b514_translations WHERE word_id = %s\<close>\<close>
  | Upsert_user json json json
      \<comment> \<open>\<open>INSERT INTO app_8b514_users (user_id, email, username) VALUES (...)
          ON CONFLICT (user_id) DO UPDATE SET email = ..., username = ... RETURNING *\<close>\<close>
  | Update_users "string list" "json list"
      \<comment> \<open>\<open>UPDATE app_8b514_users SET ... WHERE user_id = %s RETURNING *\<close>\<close>

subsection \<open>What the libraries and the server decide\<close>

text \<open>
  The calls of the driver that can raise, and everything else the code takes from outside:
  \<^item> \<open>fails\<close>: whether connecting (fetching the secret included), executing a statement,
    committing or rolling back raises, and with which error; this is where the server
    rejects a statement, for a constraint or a type, and where a lost connection shows;
  \<^item> \<open>new_uuid\<close>: the identifier the server generates for the row with a given number;
  \<^item> \<open>json_dumps\<close> and \<open>jsonb_in\<close>: the text \<open>json.dumps\<close> gives for a value, and the
    value a \<open>jsonb\<close> column holds for a text.
\<close>

datatype driver_call =
    Connecting
  | Executing statement
  | Committing statement
  | Rolling_back statement

record externals =
  fails :: "driver_call \<Rightarrow> error option"
  new_uuid :: "nat \<Rightarrow> string"
  json_dumps :: "json \<Rightarrow> string"
  jsonb_in :: "string \<Rightarrow> json"

text \<open>
  What \<open>cursor.fetchall()\<close> of psycopg2 raises after a statement that produced no result
  set, that is, when \<open>cursor.description\<close> is \<open>None\<close>.
\<close>

definition no_results_to_fetch :: error where
  "no_results_to_fetch = ProgrammingError ''no results to fetch''"

subsection \<open>The effect of a statement\<close>

text \<open>
  The cursor after \<open>execute\<close>: \<open>description\<close> (the column names, \<open>None\<close> without a
  result set), the rows \<open>fetchall\<close> would give, and \<open>rowcount\<close>.
\<close>

record cursor =
  cur_description :: "string list option"
  cur_rows :: "json list list"
  cur_rowcount :: int

definition result_set :: "string list \<Rightarrow> dict list \<Rightarrow> cursor" where
  "result_set columns rs =
     \<lparr>cur_description = Some columns,
      cur_rows = map (\<lambda>r. map (col r) columns) rs,
      cur_rowcount = int (length rs)\<rparr>"

definition no_result_set :: "nat \<Rightarrow> cursor" where
  "no_result_set n = \<lparr>cur_description = None, cur_rows = [], cur_rowcount = int n\<rparr>"

text \<open>The column a fragment \<open>name = %s\<close> assigns.\<close>

definition set_column :: "string \<Rightarrow> string" where
  "set_column fragment = takeWhile (\<lambda>c. c \<noteq> CHR '' '') fragment"

text \<open>A \<open>jsonb\<close> column reads a text parameter as JSON.\<close>

definition to_jsonb :: "externals \<Rightarrow> json \<Rightarrow> json" where
  "to_jsonb ext v = (case v of JStr t \<Rightarrow> jsonb_in ext t | _ \<Rightarrow> v)"

definition assign :: "externals \<Rightarrow> string list \<Rightarrow> dict \<Rightarrow> string \<times> json \<Rightarrow> dict" where
  "assign ext jsonb_columns row cv =
     AList.update (fst cv) (if fst cv \<in> set jsonb_columns then to_jsonb ext (snd cv) else snd cv) row"

text \<open>
  \<open>UPDATE table SET ... WHERE key = %s RETURNING *\<close>: the table afterwards and the rows
  that were updated.
\<close>

definition update_where ::
  "externals \<Rightarrow> string list \<Rightarrow> string \<Rightarrow> string list \<Rightarrow> json list \<Rightarrow> dict list \<Rightarrow> dict list \<times> dict list"
where
  "update_where ext jsonb_columns key fragments params table =
     (let target = last params;
          assignments = zip (map set_column fragments) (butlast params);
          change = (\<lambda>row. foldl (assign ext jsonb_columns) row assignments);
          table' = map (\<lambda>row. if sql_eq (col row key) target then change row else row) table
      in (table', [row \<leftarrow> table'. sql_eq (col row key) target]))"

text \<open>The aggregate of the listing: the translations of a word, oldest first.\<close>

definition translations_of :: "database \<Rightarrow> dict \<Rightarrow> json" where
  "translations_of d w =
     JArr [JObj [(''id'', col t ''id''),
                 (''language_code'', col t ''language_code''),
                 (''meaning'', col t ''meaning''),
                 (''created_at'', col t ''created_at'')].
           t \<leftarrow> translations_table d, sql_eq (col w ''id'') (col t ''word_id'')]"

fun run_statement :: "externals \<Rightarrow> statement \<Rightarrow> database \<Rightarrow> database \<times> cursor" where
  "run_statement ext (Select_language_of_user language_id user_id) d =
     (d, result_set [''id'']
           [l \<leftarrow> languages_table d. sql_eq (col l ''id'') language_id \<and> sql_eq (col l ''user_id'') user_id])"
| "run_statement ext (Select_language_owner language_id) d =
     (d, result_set [''user_id''] [l \<leftarrow> languages_table d. sql_eq (col l ''id'') language_id])"
| "run_statement ext (Select_word_of_user word_id user_id) d =
     (d, result_set [''id'']
           [w. w \<leftarrow> words_table d, l \<leftarrow> languages_table d,
               sql_eq (col w ''language_id'') (col l ''id''),
               sql_eq (col w ''id'') word_id \<and> sql_eq (col l ''user_id'') user_id])"
| "run_statement ext (Select_words_with_translations language_id) d =
     (d, result_set (words_columns @ [''app_8b514_translations''])
           (rev [w @ [(''app_8b514_translations'', translations_of d w)].
                 w \<leftarrow> words_table d,
                 (case language_id of None \<Rightarrow> True | Some l \<Rightarrow> sql_eq (col w ''language_id'') l)]))"
| "run_statement ext (Insert_language user_id name phonemes alphabet_mappings syllables rules) d =
     (let row = [(''id'', JStr (new_uuid ext (clock d))),
                 (''user_id'', user_id),
                 (''name'', name),
                 (''phonemes'', to_jsonb ext phonemes),
                 (''alphabet_mappings'', to_jsonb ext alphabet_mappings),
                 (''syllables'', syllables),
                 (''rules'', rules),
                 (''created_at'', JInt (int (clock d)))]
      in (d\<lparr>languages_table := languages_table d @ [row], clock := Suc (clock d)\<rparr>,
          result_set languages_columns [row]))"
| "run_statement ext (Update_languages fragments params) d =
     (let (table, updated) =
            update_where ext [''phonemes'', ''alphabet_mappings''] ''id'' fragments params (languages_table d)
      in (d\<lparr>languages_table := table\<rparr>, result_set languages_columns updated))"
| "run_statement ext (Insert_word language_id word ipa pos is_root embedding) d =
     (let row = [(''id'', JStr (new_uuid ext (clock d))),
                 (''language_id'', language_id),
                 (''word'', word),
                 (''ipa'', ipa),
                 (''pos'', pos),
                 (''is_root'', is_root),
                 (''embedding'', embedding),
                 (''created_at'', JInt (int (clock d)))]
      in (d\<lparr>words_table := words_table d @ [row], clock := Suc (clock d)\<rparr>,
          result_set words_columns [row]))"
| "run_statement ext (Update_words fragments params) d =
     (let (table, updated) = update_where ext [] ''id'' fragments params (words_table d)
      in (d\<lparr>words_table := table\<rparr>, result_set words_columns updated))"
| "run_statement ext (Insert_translation word_id language_code meaning) d =
     (let row = [(''id'', JStr (new_uuid ext (clock d))),
                 (''word_id'', word_id),
                 (''language_code'', language_code),
                 (''meaning'', meaning),
                 (''created_at'', JInt (int (clock d)))]
      in (d\<lparr>translations_table := translations_table d @ [row], clock := Suc (clock d)\<rparr>,
          no_result_set 1))"
| "run_statement ext (Delete_translations word_id) d =
     (d\<lparr>translations_table := [t \<leftarrow> translations_table d. \<not> sql_eq (col t ''word_id'') word_id]\<rparr>,
      no_result_set (length [t \<leftarrow> translations_table d. sql_eq (col t ''word_id'') word_id]))"
| "run_statement ext (Upsert_user user_id email username) d =
     (if list_ex (\<lambda>u. sql_eq (col u ''user_id'') user_id) (users_table d) then
        (let (table, updated) =
               update_where ext [] ''user_id'' [''email = %s'', ''username = %s'']
                 [email, username, user_id] (users_table d)
         in (d\<lparr>users_table := table\<rparr>, result_set users_columns updated))
      else
        (let row = [(''user_id'', user_id),
                    (''email'', email),
                    (''username'', username),
                    (''created_at'', JInt (int (clock d)))]
         in (d\<lparr>users_table := users_table d @ [row], clock := Suc (clock d)\<rparr>,
             result_set users_columns [row])))"
| "run_statement ext (Update_users fragments params) d =
     (let (table, updated) = update_where ext [] ''user_id'' fragments params (users_table d)
      in (d\<lparr>users_table := table\<rparr>, result_set users_columns updated))"

section \<open>db\_utils.py\<close>

text \<open>
  The world a handler acts on: the committed database and the trace of what was done to
  the driver, from which one reads which statements were sent and what is still open.
\<close>

datatype event =
    Connected
  | Cursor_opened
  | Executed statement
  | Committed
  | Rolled_back
  | Cursor_closed
  | Connection_closed

record world =
  store :: database
  trace :: "event list"

datatype query_result = Rows "dict list" | Rowcount int

text \<open>
  \<open>get_db_connection\<close> of \<open>db_utils.py\<close> reads the secret and connects; both are the
  call \<open>Connecting\<close>.  A fresh connection per call, nothing kept.
\<close>

definition get_db_connection :: "externals \<Rightarrow> world \<Rightarrow> (error + unit) \<times> world" where
  "get_db_connection ext w =
     (case fails ext Connecting of
        Some e \<Rightarrow> (Inl e, w)
      | None \<Rightarrow> (Inr (), w\<lparr>trace := trace w @ [Connected]\<rparr>))"

text \<open>\<open>cursor.fetchall()\<close>\<close>

definition fetchall :: "cursor \<Rightarrow> error + json list list" where
  "fetchall cur =
     (case cur_description cur of
        Some columns \<Rightarrow> Inr (cur_rows cur)
      | None \<Rightarrow> Inl no_results_to_fetch)"

text \<open>
  The body of the \<open>try\<close> in \<open>execute_query\<close>: the result and the database to commit, or
  the error raised, together with the events it adds.  What the statement changed is not
  in the committed database before \<open>connection.commit()\<close> has returned.
\<close>

definition try_execute ::
  "externals \<Rightarrow> database \<Rightarrow> statement \<Rightarrow> bool \<Rightarrow> (error + query_result \<times> database) \<times> event list"
where
  "try_execute ext d query fetch =
     (case fails ext (Executing query) of
        Some e \<Rightarrow> (Inl e, [])
      | None \<Rightarrow>
          (let (d', cur) = run_statement ext query d;
               fetched =
                 (if fetch then
                    (let columns = (case cur_description cur of Some cs \<Rightarrow> cs | None \<Rightarrow> [])
                     in case fetchall cur of
                          Inl e \<Rightarrow> Inl e
                        | Inr rows \<Rightarrow> Inr (Rows (map (\<lambda>row. py_dict (zip columns row)) rows)))
                  else Inr (Rowcount (cur_rowcount cur)))
           in case fetched of
                Inl e \<Rightarrow> (Inl e, [Executed query])
              | Inr result \<Rightarrow>
                  (case fails ext (Committing query) of
                     Some e \<Rightarrow> (Inl e, [Executed query])
                   | None \<Rightarrow> (Inr (result, d'), [Executed query, Committed]))))"

text \<open>
  \<open>execute_query\<close>: connection and cursor are taken before the \<open>try\<close>; the \<open>except\<close>
  branch rolls back and raises the error again, unless \<open>connection.rollback()\<close> raises
  itself, and then that error leaves the call; the \<open>finally\<close> branch closes both.
\<close>

definition execute_query ::
  "externals \<Rightarrow> world \<Rightarrow> statement \<Rightarrow> bool \<Rightarrow> (error + query_result) \<times> world"
where
  "execute_query ext w query fetch =
     (case get_db_connection ext w of
        (Inl e, w1) \<Rightarrow> (Inl e, w1)
      | (Inr _, w1) \<Rightarrow>
          (let w2 = w1\<lparr>trace := trace w1 @ [Cursor_opened]\<rparr>
           in case try_execute ext (store w2) query fetch of
                (Inr (result, d'), events) \<Rightarrow>
                  (Inr result,
                   w2\<lparr>store := d', trace := trace w2 @ events @ [Cursor_closed, Connection_closed]\<rparr>)
              | (Inl e, events) \<Rightarrow>
                  (case fails ext (Rolling_back query) of
                     None \<Rightarrow>
                       (Inl e,
                        w2\<lparr>trace := trace w2 @ events @
                                       [Rolled_back, Cursor_closed, Connection_closed]\<rparr>)
                   | Some e' \<Rightarrow>
                       (Inl e',
                        w2\<lparr>trace := trace w2 @ events @ [Cursor_closed, Connection_closed]\<rparr>))))"

text \<open>
  What a trace leaves open: connections and cursors that were taken and not closed.
\<close>

definition open_connections :: "event list \<Rightarrow> int" where
  "open_connections tr = int (count_list tr Connected) - int (count_list tr Connection_closed)"

definition open_cursors :: "event list \<Rightarrow> int" where
  "open_cursors tr = int (count_list tr Cursor_opened) - int (count_list tr Cursor_closed)"

text \<open>
  \<open>lambda_response\<close>.  The field \<open>body\<close> holds the value that the source hands to
  \<open>json.dumps(body, default=str)\<close>, not its text.
\<close>

record response =
  statusCode :: int
  headers :: "(string \<times> string) list"
  body :: json

definition default_headers :: "(string \<times> string) list" where
  "default_headers =
     [(''Content-Type'', ''application/json''),
      (''Access-Control-Allow-Origin'', ''*''),
      (''Access-Control-Allow-Methods'', ''GET, POST, PUT, DELETE, OPTIONS''),
      (''Access-Control-Allow-Headers'', ''Content-Type, Authorization'')]"

definition lambda_response :: "int \<Rightarrow> json \<Rightarrow> (string \<times> string) list option \<Rightarrow> response" where
  "lambda_response status_code b extra =
     \<lparr>statusCode = status_code,
      headers = (case extra of
                   None \<Rightarrow> default_headers
                 | Some hs \<Rightarrow>
                     if hs = [] then default_headers
                     else foldl (\<lambda>d kv. AList.update (fst kv) (snd kv) d) default_headers hs),
      body = b\<rparr>"

text \<open>The response with the body \<open>{'error': message}\<close> and the default headers.\<close>

definition error_response :: "int \<Rightarrow> string \<Rightarrow> response" where
  "error_response status_code message =
     lambda_response status_code (JObj [(''error'', JStr message)]) None"

text \<open>The extractors.  The event is the dict the platform delivers.\<close>

definition extract_path_params :: "dict \<Rightarrow> json" where
  "extract_path_params event =
     (let v = get_or event ''pathParameters'' JNull in if truthy v then v else JObj [])"

definition extract_query_params :: "dict \<Rightarrow> json" where
  "extract_query_params event =
     (let v = get_or event ''queryStringParameters'' JNull in if truthy v then v else JObj [])"

definition extract_body :: "dict \<Rightarrow> error + json" where
  "extract_body event =
     (let body = get_or event ''body'' (JStr ''{}'')
      in case body of
           JStr s \<Rightarrow> (if s \<noteq> [] then json_loads s else Inr (JObj []))
         | _ \<Rightarrow> Inr body)"

text \<open>The helpers on query results: \<open>not result\<close> and \<open>result[0]\<close>.\<close>

definition is_empty :: "query_result \<Rightarrow> bool" where
  "is_empty result = (case result of Rows rs \<Rightarrow> rs = [] | Rowcount n \<Rightarrow> n = 0)"

definition first_row :: "query_result \<Rightarrow> error + dict" where
  "first_row result =
     (case result of
        Rows rs \<Rightarrow> (case rs of [] \<Rightarrow> Inl (IndexError ''list index out of range'') | r # _ \<Rightarrow> Inr r)
      | Rowcount n \<Rightarrow> Inl (TypeError ''int object is not subscriptable''))"

section \<open>The resource operations\<close>

text \<open>
  An operation returns a response or raises, and leaves a world behind.  An exception
  skips the rest of the operation; the \<open>handler\<close> of each module turns it into a 500
  response.  Identifiers from the path and the query string are strings or \<open>None\<close>.
\<close>

type_synonym 'a outcome = "(error + 'a) \<times> world"

definition and_then :: "'a outcome \<Rightarrow> ('a \<Rightarrow> world \<Rightarrow> 'b outcome) \<Rightarrow> 'b outcome" where
  "and_then m f = (case m of (Inl e, w) \<Rightarrow> (Inl e, w) | (Inr x, w) \<Rightarrow> f x w)"

definition respond :: "response \<Rightarrow> world \<Rightarrow> response outcome" where
  "respond r w = (Inr r, w)"


text \<open>\<open>lambda_response(status, result[0])\<close>; \<open>result[0]\<close> raises on an empty result.\<close>

definition respond_first :: "int \<Rightarrow> query_result \<Rightarrow> world \<Rightarrow> response outcome" where
  "respond_first status_code result w =
     (case first_row result of
        Inl e \<Rightarrow> (Inl e, w)
      | Inr row \<Rightarrow> respond (lambda_response status_code (JObj row) None) w)"

text \<open>
  The loop over \<open>required_fields\<close>: the first field that is not a key of the payload.
\<close>

definition first_missing :: "string list \<Rightarrow> dict \<Rightarrow> string option" where
  "first_missing required_fields data = find (\<lambda>field. \<not> has_key data field) required_fields"

text \<open>
  One step of building the dynamic update: \<open>if 'f' in data: update_fields.append('f = %s');
  params.append(data['f'])\<close>, with the conversion the source applies to the value.
\<close>

definition add_field ::
  "dict \<Rightarrow> string \<Rightarrow> (json \<Rightarrow> json) \<Rightarrow> string list \<times> json list \<Rightarrow> string list \<times> json list"
where
  "add_field data field convert acc =
     (if has_key data field
      then (fst acc @ [field @ '' = %s''], snd acc @ [convert (get_or data field JNull)])
      else acc)"

subsection \<open>users.py\<close>

definition create_or_update_user :: "externals \<Rightarrow> world \<Rightarrow> dict \<Rightarrow> response outcome" where
  "create_or_update_user ext w user_data =
     (let required_fields = [''user_id'', ''email'', ''username''] in
      case first_missing required_fields user_data of
        Some field \<Rightarrow> respond (error_response 400 (''Missing required field: '' @ field)) w
      | None \<Rightarrow>
          and_then
            (execute_query ext w
               (Upsert_user (get_or user_data ''user_id'' JNull) (get_or user_data ''email'' JNull)
                  (get_or user_data ''username'' JNull)) True)
            (respond_first 201))"

definition update_user :: "externals \<Rightarrow> world \<Rightarrow> json \<Rightarrow> dict \<Rightarrow> response outcome" where
  "update_user ext w user_id user_data =
     (if \<not> truthy user_id then respond (error_response 400 ''User ID is required'') w
      else
        (let acc = add_field user_data ''username'' id (add_field user_data ''email'' id ([], []));
             update_fields = fst acc;
             params = snd acc
         in if update_fields = [] then respond (error_response 400 ''No fields to update'') w
            else
              and_then (execute_query ext w (Update_users update_fields (params @ [user_id])) True)
                (\<lambda>result w1.
                   if is_empty result then respond (error_response 404 ''User not found'') w1
                   else respond_first 200 result w1)))"

subsection \<open>languages.py\<close>

definition create_language :: "externals \<Rightarrow> world \<Rightarrow> dict \<Rightarrow> response outcome" where
  "create_language ext w language_data =
     (let required_fields = [''user_id'', ''name''] in
      case first_missing required_fields language_data of
        Some field \<Rightarrow> respond (error_response 400 (''Missing required field: '' @ field)) w
      | None \<Rightarrow>
          (let phonemes = get_or language_data ''phonemes''
                 (JObj [(''consonants'', JArr []), (''vowels'', JArr []), (''diphthongs'', JArr [])]);
               alphabet_mappings = get_or language_data ''alphabet_mappings''
                 (JObj [(''consonants'', JObj []), (''vowels'', JObj []), (''diphthongs'', JObj [])]);
               syllables = get_or language_data ''syllables'' (JStr ''CV'');
               rules = get_or language_data ''rules'' (JStr '''')
           in and_then
                (execute_query ext w
                   (Insert_language (get_or language_data ''user_id'' JNull)
                      (get_or language_data ''name'' JNull)
                      (JStr (json_dumps ext phonemes))
                      (JStr (json_dumps ext alphabet_mappings))
                      syllables rules) True)
                (respond_first 201)))"

definition update_language :: "externals \<Rightarrow> world \<Rightarrow> json \<Rightarrow> dict \<Rightarrow> response outcome" where
  "update_language ext w language_id language_data =
     (if \<not> truthy language_id then respond (error_response 400 ''Language ID is required'') w
      else
        (let dumps = (\<lambda>v. JStr (json_dumps ext v));
             acc = add_field language_data ''rules'' id
                    (add_field language_data ''syllables'' id
                      (add_field language_data ''alphabet_mappings'' dumps
                        (add_field language_data ''phonemes'' dumps
                          (add_field language_data ''name'' id ([], [])))));
             update_fields = fst acc;
             params = snd acc;
             update = (\<lambda>w1.
               and_then
                 (execute_query ext w1 (Update_languages update_fields (params @ [language_id])) True)
                 (\<lambda>result w2.
                    if is_empty result then respond (error_response 404 ''Language not found'') w2
                    else respond_first 200 result w2))
         in if update_fields = [] then respond (error_response 400 ''No fields to update'') w
            else if has_key language_data ''user_id'' then
              and_then (execute_query ext w (Select_language_owner language_id) True)
                (\<lambda>verify_result w1.
                   if is_empty verify_result then respond (error_response 404 ''Language not found'') w1
                   else
                     (case first_row verify_result of
                        Inl e \<Rightarrow> (Inl e, w1)
                      | Inr row \<Rightarrow>
                          (case subscript row ''user_id'' of
                             Inl e \<Rightarrow> (Inl e, w1)
                           | Inr owner \<Rightarrow>
                               if owner \<noteq> get_or language_data ''user_id'' JNull
                               then respond (error_response 403 ''Access denied'') w1
                               else update w1)))
            else update w))"

subsection \<open>words.py\<close>




text \<open>
  The loop over the embedded translations, of \<open>create_word\<close> and of \<open>update_word\<close>: an
  entry whose \<open>meaning\<close> is true is inserted, by a call of \<open>execute_query\<close> with the
  default \<open>fetch=True\<close>.
\<close>

fun insert_translations :: "externals \<Rightarrow> world \<Rightarrow> json \<Rightarrow> json list \<Rightarrow> unit outcome" where
  "insert_translations ext w word_id [] = (Inr (), w)"
| "insert_translations ext w word_id (translation # rest) =
     (case py_get translation ''meaning'' JNull of
        Inl e \<Rightarrow> (Inl e, w)
      | Inr meaning \<Rightarrow>
          if truthy meaning then
            (case py_get translation ''language_code'' (JStr ''en'') of
               Inl e \<Rightarrow> (Inl e, w)
             | Inr language_code \<Rightarrow>
                 (case execute_query ext w (Insert_translation word_id language_code meaning) True of
                    (Inl e, w1) \<Rightarrow> (Inl e, w1)
                  | (Inr _, w1) \<Rightarrow> insert_translations ext w1 word_id rest))
          else insert_translations ext w word_id rest)"

definition create_word :: "externals \<Rightarrow> world \<Rightarrow> dict \<Rightarrow> response outcome" where
  "create_word ext w word_data =
     (let required_fields = [''language_id'', ''word'', ''ipa''] in
      case first_missing required_fields word_data of
        Some field \<Rightarrow> respond (error_response 400 (''Missing required field: '' @ field)) w
      | None \<Rightarrow>
          (let insert = (\<lambda>w1.
                 (let pos = get_or word_data ''pos'' (JArr []);
                      is_root = get_or word_data ''is_root'' (JBool False);
                      embedding = get_or word_data ''embedding'' JNull
                  in and_then
                       (execute_query ext w1
                          (Insert_word (get_or word_data ''language_id'' JNull)
                             (get_or word_data ''word'' JNull) (get_or word_data ''ipa'' JNull)
                             pos is_root embedding) True)
                       (\<lambda>result w2.
                          case first_row result of
                            Inl e \<Rightarrow> (Inl e, w2)
                          | Inr row \<Rightarrow>
                              (case subscript row ''id'' of
                                 Inl e \<Rightarrow> (Inl e, w2)
                               | Inr word_id \<Rightarrow>
                                   if has_key word_data ''translations'' then
                                     (case py_iter (get_or word_data ''translations'' JNull) of
                                        Inl e \<Rightarrow> (Inl e, w2)
                                      | Inr entries \<Rightarrow>
                                          and_then (insert_translations ext w2 word_id entries)
                                            (\<lambda>_ w3. respond_first 201 result w3))
                                   else respond_first 201 result w2))))
           in if has_key word_data ''user_id'' then
                and_then
                  (execute_query ext w
                     (Select_language_of_user (get_or word_data ''language_id'' JNull)
                        (get_or word_data ''user_id'' JNull)) True)
                  (\<lambda>verify_result w1.
                     if is_empty verify_result
                     then respond (error_response 404 ''Language not found or access denied'') w1
                     else insert w1)
              else insert w))"

text \<open>
  \<open>update_word\<close>, in the order of the source: the identifier, the ownership check when the
  body has a \<open>user_id\<close>, the fields, the update, and last the translations.
\<close>

definition replace_translations :: "externals \<Rightarrow> world \<Rightarrow> json \<Rightarrow> dict \<Rightarrow> unit outcome" where
  "replace_translations ext w word_id word_data =
     (if has_key word_data ''translations'' then
        and_then (execute_query ext w (Delete_translations word_id) True)
          (\<lambda>_ w1.
             case py_iter (get_or word_data ''translations'' JNull) of
               Inl e \<Rightarrow> (Inl e, w1)
             | Inr entries \<Rightarrow> insert_translations ext w1 word_id entries)
      else (Inr (), w))"

definition update_word_fields :: "externals \<Rightarrow> world \<Rightarrow> json \<Rightarrow> dict \<Rightarrow> response outcome" where
  "update_word_fields ext w word_id word_data =
     (let acc = add_field word_data ''embedding'' id
                 (add_field word_data ''is_root'' id
                   (add_field word_data ''pos'' id
                     (add_field word_data ''ipa'' id
                       (add_field word_data ''word'' id ([], [])))));
          update_fields = fst acc;
          params = snd acc
      in if update_fields = [] then respond (error_response 400 ''No fields to update'') w
         else
           and_then (execute_query ext w (Update_words update_fields (params @ [word_id])) True)
             (\<lambda>result w1.
                if is_empty result then respond (error_response 404 ''Word not found'') w1
                else
                  and_then (replace_translations ext w1 word_id word_data)
                    (\<lambda>_ w2. respond_first 200 result w2)))"

definition update_word :: "externals \<Rightarrow> world \<Rightarrow> json \<Rightarrow> dict \<Rightarrow> response outcome" where
  "update_word ext w word_id word_data =
     (if \<not> truthy word_id then respond (error_response 400 ''Word ID is required'') w
      else if has_key word_data ''user_id'' then
        and_then
          (execute_query ext w (Select_word_of_user word_id (get_or word_data ''user_id'' JNull)) True)
          (\<lambda>verify_result w1.
             if is_empty verify_result
             then respond (error_response 404 ''Word not found or access denied'') w1
             else update_word_fields ext w1 word_id word_data)
      else update_word_fields ext w word_id word_data)"

subsection \<open>Notions used to state the properties of the operations\<close>


text \<open>The rows of the languages table with a given identifier.\<close>

definition languages_with_id :: "database \<Rightarrow> json \<Rightarrow> dict list" where
  "languages_with_id d language_id = [l \<leftarrow> languages_table d. sql_eq (col l ''id'') language_id]"

text \<open>The word exists and belongs to a language of the user.\<close>

definition word_of_user :: "database \<Rightarrow> json \<Rightarrow> json \<Rightarrow> bool" where
  "word_of_user d word_id user_id =
     list_ex (\<lambda>w. sql_eq (col w ''id'') word_id \<and>
                list_ex (\<lambda>l. sql_eq (col w ''language_id'') (col l ''id'') \<and>
                           sql_eq (col l ''user_id'') user_id) (languages_table d))
       (words_table d)"

text \<open>
  The translations attached to a word, oldest first, each as its language code and its
  meaning; and the same two components of an entry of an inbound \<open>translations\<close> list.
\<close>

definition attached :: "database \<Rightarrow> json \<Rightarrow> (json \<times> json) list" where
  "attached d word_id =
     map (\<lambda>t. (col t ''language_code'', col t ''meaning''))
       [t \<leftarrow> translations_table d. sql_eq (col t ''word_id'') word_id]"

definition entry_meaning :: "json \<Rightarrow> json" where
  "entry_meaning entry = (case entry of JObj d \<Rightarrow> get_or d ''meaning'' JNull | _ \<Rightarrow> JNull)"

definition entry_language_code :: "json \<Rightarrow> json" where
  "entry_language_code entry =
     (case entry of JObj d \<Rightarrow> get_or d ''language_code'' (JStr ''en'') | _ \<Rightarrow> JStr ''en'')"

text \<open>
  The calls that send one statement do not raise: connecting, executing it, committing it.
\<close>

definition accepted :: "externals \<Rightarrow> statement \<Rightarrow> bool" where
  "accepted ext query =
     (fails ext Connecting = None \<and> fails ext (Executing query) = None \<and>
      fails ext (Committing query) = None)"

text \<open>The events one accepted statement adds to the trace.\<close>

definition statement_events :: "statement \<Rightarrow> event list" where
  "statement_events query =
     [Connected, Cursor_opened, Executed query, Committed, Cursor_closed, Connection_closed]"

section \<open>Concrete inputs\<close>

text \<open>Runners and environments on which the theorems below are instantiated.\<close>

definition quiet :: environment where
  "quiet = \<lparr>secret_arn = Some ''arn:aws:secretsmanager:db'', raises = (\<lambda>op. None), elapsed_ms = (\<lambda>v. 7)\<rparr>"

definition two_applied :: runner where
  "two_applied =
     \<lparr>connection = False, failed_transaction = False,
      db = \<lparr>ledger = Some
              [\<lparr>l_version = ''20250101_120000'', l_execution_time_ms = 40,
                l_description = ''Initial PhaserAI database schema''\<rparr>,
               \<lparr>l_version = ''20250102_143000'', l_execution_time_ms = 12,
                l_description = ''Add etymology and validation tables''\<rparr>],
            scripts_run = [Initial_schema, Etymology_tables]\<rparr>\<rparr>"





text \<open>
  A small database: Alice owns the language \<open>lang-1\<close> with the word \<open>word-1\<close>, which
  has two translations; a third translation belongs to another word.
\<close>

definition sample_db :: database where
  "sample_db =
     \<lparr>users_table =
        [[(''user_id'', JStr ''alice''), (''email'', JStr ''alice@example.org''),
          (''username'', JStr ''alice''), (''created_at'', JInt 0)],
         [(''user_id'', JStr ''bob''), (''email'', JStr ''bob@example.org''),
          (''username'', JStr ''bob''), (''created_at'', JInt 1)]],
      languages_table =
        [[(''id'', JStr ''lang-1''), (''user_id'', JStr ''alice''), (''name'', JStr ''Eldarin''),
          (''phonemes'', JObj []), (''alphabet_mappings'', JObj []), (''syllables'', JStr ''CV''),
          (''rules'', JStr ''''), (''created_at'', JInt 2)]],
      words_table =
        [[(''id'', JStr ''word-1''), (''language_id'', JStr ''lang-1''), (''word'', JStr ''nen''),
          (''ipa'', JStr ''nen''), (''pos'', JArr [JStr ''noun'']), (''is_root'', JBool True),
          (''embedding'', JNull), (''created_at'', JInt 3)]],
      translations_table =
        [[(''id'', JStr ''tr-A''), (''word_id'', JStr ''word-1''), (''language_code'', JStr ''en''),
          (''meaning'', JStr ''water''), (''created_at'', JInt 4)],
         [(''id'', JStr ''tr-B''), (''word_id'', JStr ''word-1''), (''language_code'', JStr ''fr''),
          (''meaning'', JStr ''eau''), (''created_at'', JInt 5)],
         [(''id'', JStr ''tr-Z''), (''word_id'', JStr ''word-2''), (''language_code'', JStr ''en''),
          (''meaning'', JStr ''fire''), (''created_at'', JInt 6)]],
      clock = 7\<rparr>"

definition sample_world :: world where
  "sample_world = \<lparr>store = sample_db, trace = []\<rparr>"

text \<open>
  Three environments: one in which no call of the driver raises; one in which the server
  cancels every statement and the rollback goes through; and one in which the connection
  is lost while the statement runs, so that the rollback raises as well.  The two
  conversions of JSON texts are not exercised on the inputs below.
\<close>

definition psycopg2 :: externals where
  "psycopg2 =
     \<lparr>fails = (\<lambda>c. None),
      new_uuid = (\<lambda>n. ''generated-'' @ show_nat n),
      json_dumps = (\<lambda>v. ''null''),
      jsonb_in = (\<lambda>t. JNull)\<rparr>"

definition statement_timeout :: externals where
  "statement_timeout =
     psycopg2\<lparr>fails := (\<lambda>c. case c of
                   Executing q \<Rightarrow> Some (OperationalError ''canceling statement due to statement timeout'')
                 | _ \<Rightarrow> None)\<rparr>"

definition connection_lost :: externals where
  "connection_lost =
     psycopg2\<lparr>fails := (\<lambda>c. case c of
                   Executing q \<Rightarrow> Some (OperationalError ''server closed the connection unexpectedly'')
                 | Rolling_back q \<Rightarrow> Some (InterfaceError ''connection already closed'')
                 | _ \<Rightarrow> None)\<rparr>"



section \<open>Properties of the migration runner\<close>

subsection \<open>Auxiliary facts\<close>



lemma runner_get_db_connection_ok:
  "connects env r \<Longrightarrow> runner_get_db_connection env r = (Inr (), r\<lparr>connection := True, failed_transaction := False\<rparr>)"
  by (cases r) (auto simp: connects_def runner_get_db_connection_def split: option.splits if_splits)

lemma connects_after [simp]: "connects env (r\<lparr>connection := True, failed_transaction := False\<rparr>)"
  by (simp add: connects_def)


lemma ledger_versions_create [simp]:
  "ledger_versions (create_table_if_not_exists d) = ledger_versions d"
  by (simp add: ledger_versions_def create_table_if_not_exists_def split: option.splits)

lemma scripts_run_create [simp]:
  "scripts_run (create_table_if_not_exists d) = scripts_run d"
  by (simp add: create_table_if_not_exists_def split: option.splits)

lemma ensure_ok:
  "connects env r \<Longrightarrow> raises env Create_table = None \<Longrightarrow> raises env Commit_table = None \<Longrightarrow>
   ensure_migrations_table env r =
     (Inr (), r\<lparr>connection := True, failed_transaction := False, db := create_table_if_not_exists (db r)\<rparr>)"
  by (simp add: ensure_migrations_table_def runner_get_db_connection_ok cursor_execute_def)

lemma ledger_created: "ledger (create_table_if_not_exists d) \<noteq> None"
  by (simp add: create_table_if_not_exists_def split: option.splits)

lemma get_applied_ok:
  "connects env r \<Longrightarrow> raises env Select_versions = None \<Longrightarrow> ledger (db r) \<noteq> None \<Longrightarrow>
   get_applied_migrations env r =
     (Inr (sort (ledger_versions (db r))), r\<lparr>connection := True, failed_transaction := False\<rparr>)"
  by (auto simp: get_applied_migrations_def runner_get_db_connection_ok select_versions_def
      cursor_execute_def ledger_versions_def split: option.splits)

lemma get_applied_versions:
  "connects env r \<Longrightarrow> raises env Select_versions = None \<Longrightarrow>
   fst (get_applied_migrations env r) = Inr (sort (ledger_versions (db r)))"
  by (simp add: get_applied_migrations_def runner_get_db_connection_ok select_versions_def
      cursor_execute_def ledger_versions_def split: option.splits)

lemma get_pending_ok:
  "connects env r \<Longrightarrow> raises env Select_versions = None \<Longrightarrow> ledger (db r) \<noteq> None \<Longrightarrow>
   get_pending_migrations env r =
     (Inr [m \<leftarrow> get_migrations. version m \<notin> set (ledger_versions (db r))],
      r\<lparr>connection := True, failed_transaction := False\<rparr>)"
  by (simp add: get_pending_migrations_def get_applied_ok)

lemma get_pending_versions:
  "connects env r \<Longrightarrow> raises env Select_versions = None \<Longrightarrow>
   fst (get_pending_migrations env r) =
     Inr [m \<leftarrow> get_migrations. version m \<notin> set (ledger_versions (db r))]"
  using get_applied_versions [of env r]
  by (cases "get_applied_migrations env r") (simp add: get_pending_migrations_def)

lemma upsert_row_versions:
  "map l_version (upsert_row v t d rows) =
     (if v \<in> set (map l_version rows) then map l_version rows else map l_version rows @ [v])"
  by (induction rows) auto


lemma apply_migration_ok:
  assumes "connection r \<and> \<not> failed_transaction r" "failure_of env m = None" "ledger (db r) = Some rows"
  shows "apply_migration env r m =
     (Inr (elapsed_ms env (version m)),
      r\<lparr>db := \<lparr>ledger = Some (upsert_row (version m) (elapsed_ms env (version m)) (description m) rows),
               scripts_run = scripts_run (db r) @ [sql m]\<rparr>\<rparr>)"
  using assms
  by (simp add: apply_migration_def runner_get_db_connection_def failure_of_def record_migration_def Let_def
      cursor_execute_def split: option.splits)



lemma apply_pending_ok:
  assumes "connection r \<and> \<not> failed_transaction r" "\<forall>m \<in> set ms. failure_of env m = None" "ledger (db r) = Some rows"
  shows "apply_pending env r ms acc tot =
     (Inr (acc @ map (\<lambda>m. applied_entry m (elapsed_ms env (version m))) ms,
           tot + sum_list (map (\<lambda>m. elapsed_ms env (version m)) ms)),
      r\<lparr>db := \<lparr>ledger = Some (ledger_after env ms rows),
               scripts_run = scripts_run (db r) @ map sql ms\<rparr>\<rparr>)"
  using assms
proof (induction ms arbitrary: r rows acc tot)
  case Nil
  then show ?case by (simp add: ledger_after_def)
next
  case (Cons m ms)
  have a: "failure_of env m = None" using Cons.prems(2) by simp
  let ?r1 = "r\<lparr>db := \<lparr>ledger = Some (upsert_row (version m) (elapsed_ms env (version m)) (description m) rows),
               scripts_run = scripts_run (db r) @ [sql m]\<rparr>\<rparr>"
  have step: "apply_migration env r m = (Inr (elapsed_ms env (version m)), ?r1)"
    by (rule apply_migration_ok [OF Cons.prems(1) a Cons.prems(3)])
  have "connection ?r1 \<and> \<not> failed_transaction ?r1" using Cons.prems(1) by simp
  moreover have "\<forall>m \<in> set ms. failure_of env m = None" using Cons.prems(2) by simp
  moreover have "ledger (db ?r1) = Some (upsert_row (version m) (elapsed_ms env (version m)) (description m) rows)"
    by simp
  ultimately show ?case
    using Cons.IH [of ?r1] by (simp add: step ledger_after_def add.assoc)
qed



lemma ledger_after_versions_new:
  "distinct (map version ms) \<Longrightarrow> set (map version ms) \<inter> set (map l_version rows) = {} \<Longrightarrow>
   map l_version (ledger_after env ms rows) = map l_version rows @ map version ms"
proof (induction ms arbitrary: rows)
  case Nil
  then show ?case by (simp add: ledger_after_def)
next
  case (Cons m ms)
  have new: "version m \<notin> set (map l_version rows)" using Cons.prems(2) by auto
  let ?rows1 = "upsert_row (version m) (elapsed_ms env (version m)) (description m) rows"
  have v1: "map l_version ?rows1 = map l_version rows @ [version m]"
    using new by (simp add: upsert_row_versions)
  have "distinct (map version ms)" using Cons.prems(1) by simp
  moreover have "set (map version ms) \<inter> set (map l_version ?rows1) = {}"
    using Cons.prems by (auto simp: v1)
  ultimately have "map l_version (ledger_after env ms ?rows1) = map l_version ?rows1 @ map version ms"
    by (rule Cons.IH)
  then show ?case by (simp add: ledger_after_def v1)
qed

lemma distinct_versions: "distinct (map version get_migrations)"
  by (simp add: get_migrations_def)

lemma sorted_versions: "sorted (map version get_migrations)"
  by (simp add: get_migrations_def)


lemma create_table_shape:
  "\<exists>rows. create_table_if_not_exists d = \<lparr>ledger = Some rows, scripts_run = scripts_run d\<rparr>
     \<and> map l_version rows = ledger_versions d"
  by (cases d) (auto simp: create_table_if_not_exists_def ledger_versions_def split: option.splits)

lemma run_migrations_state:
  assumes conn: "connects env r"
    and ens: "raises env Create_table = None" "raises env Commit_table = None"
    and sel: "raises env Select_versions = None"
    and ok: "\<forall>m \<in> set (known_minus_ledger (db r)). failure_of env m = None"
  shows "\<exists>rows. map l_version rows = ledger_versions (db r) \<and>
     snd (run_migrations env r) =
       r\<lparr>connection := True, failed_transaction := False,
         db := \<lparr>ledger = Some (ledger_after env (known_minus_ledger (db r)) rows),
                scripts_run = scripts_run (db r) @ map sql (known_minus_ledger (db r))\<rparr>\<rparr> \<and>
     fst (run_migrations env r) =
       (if known_minus_ledger (db r) = [] then
          [(''success'', JBool True),
           (''message'', JStr ''No pending migrations''),
           (''applied_count'', JInt 0),
           (''applied_migrations'', JArr [])]
        else
          [(''success'', JBool True),
           (''message'', JStr (''Applied '' @ show_nat (length (known_minus_ledger (db r))) @ '' migration(s)'')),
           (''applied_count'', JInt (int (length (known_minus_ledger (db r))))),
           (''applied_migrations'',
              JArr (map (\<lambda>m. applied_entry m (elapsed_ms env (version m))) (known_minus_ledger (db r)))),
           (''total_execution_time_ms'',
              JInt (sum_list (map (\<lambda>m. elapsed_ms env (version m)) (known_minus_ledger (db r)))))])"
proof -
  obtain rows where shape: "create_table_if_not_exists (db r) = \<lparr>ledger = Some rows, scripts_run = scripts_run (db r)\<rparr>"
    and vs: "map l_version rows = ledger_versions (db r)"
    using create_table_shape by blast
  let ?r1 = "r\<lparr>connection := True, failed_transaction := False, db := create_table_if_not_exists (db r)\<rparr>"
  have e: "ensure_migrations_table env r = (Inr (), ?r1)"
    using conn ens by (rule ensure_ok)
  have c1: "connects env ?r1" by (simp add: connects_def)
  have t1: "ledger (db ?r1) \<noteq> None" by (simp add: ledger_created)
  have p: "get_pending_migrations env ?r1 = (Inr (known_minus_ledger (db r)), ?r1)"
    using get_pending_ok [OF c1 sel t1] by (simp add: known_minus_ledger_def)
  have l1: "ledger (db ?r1) = Some rows" by (simp add: shape)
  have loop: "apply_pending env ?r1 (known_minus_ledger (db r)) [] 0 =
     (Inr ([] @ map (\<lambda>m. applied_entry m (elapsed_ms env (version m))) (known_minus_ledger (db r)),
           0 + sum_list (map (\<lambda>m. elapsed_ms env (version m)) (known_minus_ledger (db r)))),
      ?r1\<lparr>db := \<lparr>ledger = Some (ledger_after env (known_minus_ledger (db r)) rows),
               scripts_run = scripts_run (db ?r1) @ map sql (known_minus_ledger (db r))\<rparr>\<rparr>)"
    by (rule apply_pending_ok [OF _ ok l1]) simp
  show ?thesis
  proof (intro exI conjI)
    show "map l_version rows = ledger_versions (db r)" by (rule vs)
    show "snd (run_migrations env r) =
       r\<lparr>connection := True, failed_transaction := False,
         db := \<lparr>ledger = Some (ledger_after env (known_minus_ledger (db r)) rows),
                scripts_run = scripts_run (db r) @ map sql (known_minus_ledger (db r))\<rparr>\<rparr>"
      by (simp add: run_migrations_def e p loop) (simp add: shape ledger_after_def)
    show "fst (run_migrations env r) =
       (if known_minus_ledger (db r) = [] then
          [(''success'', JBool True),
           (''message'', JStr ''No pending migrations''),
           (''applied_count'', JInt 0),
           (''applied_migrations'', JArr [])]
        else
          [(''success'', JBool True),
           (''message'', JStr (''Applied '' @ show_nat (length (known_minus_ledger (db r))) @ '' migration(s)'')),
           (''applied_count'', JInt (int (length (known_minus_ledger (db r))))),
           (''applied_migrations'',
              JArr (map (\<lambda>m. applied_entry m (elapsed_ms env (version m))) (known_minus_ledger (db r)))),
           (''total_execution_time_ms'',
              JInt (sum_list (map (\<lambda>m. elapsed_ms env (version m)) (known_minus_ledger (db r)))))])"
      by (simp add: run_migrations_def e p loop)
  qed
qed

lemma pending_versions_new:
  "distinct (map version (known_minus_ledger d)) \<and>
   set (map version (known_minus_ledger d)) \<inter> set (ledger_versions d) = {}"
  using distinct_versions by (auto simp: known_minus_ledger_def distinct_map_filter)

lemma sorted_pending: "sorted (map version (known_minus_ledger d))"
  unfolding known_minus_ledger_def using sorted_versions by (simp add: sorted_map sorted_wrt_filter)

lemma get_status_ok:
  assumes conn: "connects env r"
    and ens: "raises env Create_table = None" "raises env Commit_table = None"
    and sel: "raises env Select_versions = None"
  shows "fst (get_status env r) =
     [(''success'', JBool True),
      (''total_migrations'', JInt (int (length get_migrations))),
      (''applied_count'', JInt (int (length (ledger_versions (db r))))),
      (''pending_count'', JInt (int (length (known_minus_ledger (db r))))),
      (''applied_migrations'', JArr (map JStr (sort (ledger_versions (db r))))),
      (''pending_migrations'', JArr (map (\<lambda>m. JStr (version m)) (known_minus_ledger (db r))))]"
proof -
  let ?r1 = "r\<lparr>connection := True, failed_transaction := False, db := create_table_if_not_exists (db r)\<rparr>"
  have e: "ensure_migrations_table env r = (Inr (), ?r1)"
    using conn ens by (rule ensure_ok)
  have c1: "connects env ?r1" by (simp add: connects_def)
  have t1: "ledger (db ?r1) \<noteq> None" by (simp add: ledger_created)
  have a: "get_applied_migrations env ?r1 = (Inr (sort (ledger_versions (db r))), ?r1)"
    using get_applied_ok [OF c1 sel t1] by simp
  have p: "get_pending_migrations env ?r1 = (Inr (known_minus_ledger (db r)), ?r1)"
    using get_pending_ok [OF c1 sel t1] by (simp add: known_minus_ledger_def)
  show ?thesis by (simp add: get_status_def e a p)
qed





subsection \<open>Pending migrations and a run\<close>

text \<open>
  Claim C1.  Whatever the ledger holds, when the connection can be had and no driver
  operation raises: \<open>get_pending_migrations\<close> returns exactly the embedded migrations
  whose version is not in the ledger; they are in ascending order of version;
  \<open>run_migrations\<close> reports exactly them as applied, in that order, appends their
  versions to the ledger and executes their scripts in that order.  In particular, when
  the ledger holds the first two versions, the third alone is pending and applied, and
  \<open>get_status\<close> afterwards reports \<open>applied_count = 3\<close> and \<open>pending_count = 0\<close>.
\<close>
theorem pending_run_status:
  assumes conn: "connects env r" and quiet: "\<forall>op. raises env op = None"
  shows "fst (get_pending_migrations env r) = Inr (known_minus_ledger (db r))
    \<and> sorted (map version (known_minus_ledger (db r)))
    \<and> map_of (fst (run_migrations env r)) ''applied_migrations'' =
        Some (JArr (map (\<lambda>m. applied_entry m (elapsed_ms env (version m))) (known_minus_ledger (db r))))
    \<and> ledger_versions (db (snd (run_migrations env r))) =
        ledger_versions (db r) @ map version (known_minus_ledger (db r))
    \<and> scripts_run (db (snd (run_migrations env r))) =
        scripts_run (db r) @ map sql (known_minus_ledger (db r))
    \<and> (distinct (ledger_versions (db r)) \<and>
        set (ledger_versions (db r)) = {''20250101_120000'', ''20250102_143000''} \<longrightarrow>
          map version (known_minus_ledger (db r)) = [''20250103_091500''] \<and>
          scripts_run (db (snd (run_migrations env r))) = scripts_run (db r) @ [User_preferences] \<and>
          map_of (fst (get_status env (snd (run_migrations env r)))) ''applied_count'' = Some (JInt 3) \<and>
          map_of (fst (get_status env (snd (run_migrations env r)))) ''pending_count'' = Some (JInt 0))"
proof -
  let ?p = "known_minus_ledger (db r)"
  let ?r' = "snd (run_migrations env r)"
  have q: "raises env Create_table = None" "raises env Commit_table = None"
    "raises env Select_versions = None" "\<forall>m \<in> set ?p. failure_of env m = None"
    using quiet by (simp_all add: failure_of_def)
  obtain rows where vs: "map l_version rows = ledger_versions (db r)"
    and st: "?r' = r\<lparr>connection := True, failed_transaction := False,
         db := \<lparr>ledger = Some (ledger_after env ?p rows),
                scripts_run = scripts_run (db r) @ map sql ?p\<rparr>\<rparr>"
    and res: "fst (run_migrations env r) =
       (if ?p = [] then
          [(''success'', JBool True),
           (''message'', JStr ''No pending migrations''),
           (''applied_count'', JInt 0),
           (''applied_migrations'', JArr [])]
        else
          [(''success'', JBool True),
           (''message'', JStr (''Applied '' @ show_nat (length ?p) @ '' migration(s)'')),
           (''applied_count'', JInt (int (length ?p))),
           (''applied_migrations'', JArr (map (\<lambda>m. applied_entry m (elapsed_ms env (version m))) ?p)),
           (''total_execution_time_ms'', JInt (sum_list (map (\<lambda>m. elapsed_ms env (version m)) ?p)))])"
    using run_migrations_state [OF conn q] by blast
  have g1: "fst (get_pending_migrations env r) = Inr ?p"
    using get_pending_versions [OF conn q(3)] by (simp add: known_minus_ledger_def)
  have g2: "sorted (map version ?p)" by (rule sorted_pending)
  have g3: "map_of (fst (run_migrations env r)) ''applied_migrations'' =
        Some (JArr (map (\<lambda>m. applied_entry m (elapsed_ms env (version m))) ?p))"
    by (simp add: res)
  have new: "distinct (map version ?p)" "set (map version ?p) \<inter> set (map l_version rows) = {}"
    using pending_versions_new [of "db r"] by (simp_all add: vs)
  have g4: "ledger_versions (db ?r') = ledger_versions (db r) @ map version ?p"
    using ledger_after_versions_new [OF new, of env] by (simp add: st ledger_versions_def vs)
  have g5: "scripts_run (db ?r') = scripts_run (db r) @ map sql ?p"
    by (simp add: st)
  have g6: "map version ?p = [''20250103_091500''] \<and>
          scripts_run (db ?r') = scripts_run (db r) @ [User_preferences] \<and>
          map_of (fst (get_status env ?r')) ''applied_count'' = Some (JInt 3) \<and>
          map_of (fst (get_status env ?r')) ''pending_count'' = Some (JInt 0)"
    if d: "distinct (ledger_versions (db r))"
      and two: "set (ledger_versions (db r)) = {''20250101_120000'', ''20250102_143000''}"
  proof -
    have p3: "?p = [\<lparr>version = ''20250103_091500'', description = ''Add user preferences table'',
                    sql = User_preferences\<rparr>]"
      by (simp add: known_minus_ledger_def get_migrations_def two get_user_preferences_migration_def)
    have len: "length (ledger_versions (db r)) = 2"
      using distinct_card [OF d] by (simp add: two)
    have c': "connects env ?r'" by (simp add: st connects_def)
    have none: "known_minus_ledger (db ?r') = []"
      by (simp add: known_minus_ledger_def g4 two p3 get_migrations_def)
    have "fst (get_status env ?r') =
     [(''success'', JBool True),
      (''total_migrations'', JInt (int (length get_migrations))),
      (''applied_count'', JInt (int (length (ledger_versions (db ?r'))))),
      (''pending_count'', JInt (int (length (known_minus_ledger (db ?r'))))),
      (''applied_migrations'', JArr (map JStr (sort (ledger_versions (db ?r'))))),
      (''pending_migrations'', JArr (map (\<lambda>m. JStr (version m)) (known_minus_ledger (db ?r'))))]"
      by (rule get_status_ok [OF c' q(1) q(2) q(3)])
    then show ?thesis
      by (simp add: none g4 len p3 g5)
  qed
  show ?thesis using g1 g2 g3 g4 g5 g6 by blast
qed


theorem pending_run_status_witness:
  "connects quiet two_applied \<and> (\<forall>op. raises quiet op = None)
   \<and> distinct (ledger_versions (db two_applied))
   \<and> set (ledger_versions (db two_applied)) = {''20250101_120000'', ''20250102_143000''}
   \<and> map version (known_minus_ledger (db two_applied)) = [''20250103_091500'']
   \<and> scripts_run (db (snd (run_migrations quiet two_applied))) =
        [Initial_schema, Etymology_tables, User_preferences]
   \<and> map_of (fst (get_status quiet (snd (run_migrations quiet two_applied)))) ''applied_count'' =
        Some (JInt 3)
   \<and> map_of (fst (get_status quiet (snd (run_migrations quiet two_applied)))) ''pending_count'' =
        Some (JInt 0)"
proof -
  have h1: "connects quiet two_applied" by (simp add: connects_def quiet_def two_applied_def)
  have h2: "\<forall>op. raises quiet op = None" by (simp add: quiet_def)
  have h3: "distinct (ledger_versions (db two_applied))
      \<and> set (ledger_versions (db two_applied)) = {''20250101_120000'', ''20250102_143000''}"
    by (simp add: ledger_versions_def two_applied_def)
  have h4: "scripts_run (db two_applied) = [Initial_schema, Etymology_tables]"
    by (simp add: two_applied_def)
  from pending_run_status [OF h1 h2] h3
  have "map version (known_minus_ledger (db two_applied)) = [''20250103_091500'']
    \<and> scripts_run (db (snd (run_migrations quiet two_applied))) =
         scripts_run (db two_applied) @ [User_preferences]
    \<and> map_of (fst (get_status quiet (snd (run_migrations quiet two_applied)))) ''applied_count'' =
         Some (JInt 3)
    \<and> map_of (fst (get_status quiet (snd (run_migrations quiet two_applied)))) ''pending_count'' =
         Some (JInt 0)"
    by blast
  then show ?thesis
    using h1 h2 h3 by (simp add: h4)
qed

subsection \<open>A migration that fails\<close>




subsection \<open>A ledger that cannot be read\<close>






section \<open>Properties of db\_utils.py\<close>

subsection \<open>execute\_query\<close>

lemma try_execute_events:
  "try_execute ext d query fetch = (r, evs) \<Longrightarrow>
     count_list evs Connected = 0 \<and> count_list evs Connection_closed = 0 \<and>
     count_list evs Cursor_opened = 0 \<and> count_list evs Cursor_closed = 0"
  by (auto simp: try_execute_def Let_def split: option.splits prod.splits sum.splits if_splits)

lemma try_execute_accepted:
  assumes "fails ext (Executing query) = None" and "fails ext (Committing query) = None"
    and "fetch \<longrightarrow> cur_description (snd (run_statement ext query d)) \<noteq> None"
  shows "try_execute ext d query fetch =
     (Inr (if fetch
           then Rows (map (\<lambda>row. py_dict (zip
                  (case cur_description (snd (run_statement ext query d)) of Some cs \<Rightarrow> cs | None \<Rightarrow> [])
                  row)) (cur_rows (snd (run_statement ext query d))))
           else Rowcount (cur_rowcount (snd (run_statement ext query d))),
           fst (run_statement ext query d)),
      [Executed query, Committed])"
  using assms
  by (cases "run_statement ext query d") (auto simp: try_execute_def fetchall_def)

lemma try_execute_returns:
  "try_execute ext d query fetch = (Inr (result, d'), evs) \<Longrightarrow>
     fails ext (Executing query) = None \<and> fails ext (Committing query) = None \<and>
     (fetch \<longrightarrow> cur_description (snd (run_statement ext query d)) \<noteq> None)"
  by (auto simp: try_execute_def Let_def fetchall_def
      split: option.splits prod.splits sum.splits if_splits)

lemma try_execute_statement_fails:
  "fails ext (Executing query) = Some e \<Longrightarrow> try_execute ext d query fetch = (Inl e, [])"
  by (simp add: try_execute_def)

lemma execute_query_accepted:
  assumes "accepted ext query"
    and "fetch \<longrightarrow> cur_description (snd (run_statement ext query (store w))) \<noteq> None"
  shows "execute_query ext w query fetch =
     (Inr (if fetch
           then Rows (map (\<lambda>row. py_dict (zip
                  (case cur_description (snd (run_statement ext query (store w))) of
                     Some cs \<Rightarrow> cs | None \<Rightarrow> [])
                  row)) (cur_rows (snd (run_statement ext query (store w)))))
           else Rowcount (cur_rowcount (snd (run_statement ext query (store w))))),
      w\<lparr>store := fst (run_statement ext query (store w)),
        trace := trace w @ statement_events query\<rparr>)"
proof -
  from assms(1) have f: "fails ext Connecting = None" "fails ext (Executing query) = None"
    "fails ext (Committing query) = None"
    by (simp_all add: accepted_def)
  show ?thesis
    by (simp add: execute_query_def get_db_connection_def f(1)
        try_execute_accepted [OF f(2) f(3) assms(2)] statement_events_def
        del: run_statement.simps)
qed

lemma execute_query_returns:
  assumes "execute_query ext w query fetch = (Inr result, w')"
  shows "accepted ext query \<and>
         (fetch \<longrightarrow> cur_description (snd (run_statement ext query (store w))) \<noteq> None)"
proof -
  from assms obtain d' evs where t: "try_execute ext (store w) query fetch = (Inr (result, d'), evs)"
    and c: "fails ext Connecting = None"
    by (auto simp: execute_query_def get_db_connection_def Let_def
        split: option.splits prod.splits sum.splits)
  from try_execute_returns [OF t] c show ?thesis
    by (simp add: accepted_def)
qed

text \<open>
  Claim C8, as amended.  For every call of \<open>execute_query\<close>:
  \<^item> when connecting, executing the statement and committing do not raise, and for
    \<open>fetch=True\<close> the statement has a result set, the call commits and returns the
    result: the rows as dicts from column name to value for \<open>fetch=True\<close>, the row
    count for \<open>fetch=False\<close>; and the call returns in no other case;
  \<^item> when executing the statement raises \<open>e\<close>, the call attempts the rollback; when the
    rollback returns, the call raises \<open>e\<close>; when the rollback raises \<open>e'\<close>, the call
    raises \<open>e'\<close> instead;
  \<^item> whenever the call raises, the database is unchanged;
  \<^item> when a connection was obtained, the trace ends with the closing of the cursor and
    of the connection, and in every case nothing is left open.
\<close>

theorem execute_query_commit_rollback_release:
  "(accepted ext query \<and>
      (fetch \<longrightarrow> cur_description (snd (run_statement ext query (store w))) \<noteq> None) \<longrightarrow>
      execute_query ext w query fetch =
        (Inr (if fetch
              then Rows (map (\<lambda>row. py_dict (zip
                     (case cur_description (snd (run_statement ext query (store w))) of
                        Some cs \<Rightarrow> cs | None \<Rightarrow> [])
                     row)) (cur_rows (snd (run_statement ext query (store w)))))
              else Rowcount (cur_rowcount (snd (run_statement ext query (store w))))),
         w\<lparr>store := fst (run_statement ext query (store w)),
           trace := trace w @ [Connected, Cursor_opened, Executed query, Committed,
                               Cursor_closed, Connection_closed]\<rparr>))
   \<and> (\<forall>result w'. execute_query ext w query fetch = (Inr result, w') \<longrightarrow>
         accepted ext query \<and>
         (fetch \<longrightarrow> cur_description (snd (run_statement ext query (store w))) \<noteq> None))
   \<and> (\<forall>e. fails ext Connecting = None \<and> fails ext (Executing query) = Some e \<longrightarrow>
         execute_query ext w query fetch =
           (case fails ext (Rolling_back query) of
              None \<Rightarrow>
                (Inl e, w\<lparr>trace := trace w @ [Connected, Cursor_opened, Rolled_back,
                                                Cursor_closed, Connection_closed]\<rparr>)
            | Some e' \<Rightarrow>
                (Inl e', w\<lparr>trace := trace w @ [Connected, Cursor_opened,
                                                 Cursor_closed, Connection_closed]\<rparr>)))
   \<and> (\<forall>e w'. execute_query ext w query fetch = (Inl e, w') \<longrightarrow> store w' = store w)
   \<and> (fails ext Connecting = None \<longrightarrow>
         (\<exists>evs. trace (snd (execute_query ext w query fetch)) =
                  trace w @ [Connected, Cursor_opened] @ evs @ [Cursor_closed, Connection_closed]))
   \<and> open_connections (trace (snd (execute_query ext w query fetch))) = open_connections (trace w)
   \<and> open_cursors (trace (snd (execute_query ext w query fetch))) = open_cursors (trace w)"
proof -
  have c1: "accepted ext query \<and>
      (fetch \<longrightarrow> cur_description (snd (run_statement ext query (store w))) \<noteq> None) \<longrightarrow>
      execute_query ext w query fetch =
        (Inr (if fetch
              then Rows (map (\<lambda>row. py_dict (zip
                     (case cur_description (snd (run_statement ext query (store w))) of
                        Some cs \<Rightarrow> cs | None \<Rightarrow> [])
                     row)) (cur_rows (snd (run_statement ext query (store w)))))
              else Rowcount (cur_rowcount (snd (run_statement ext query (store w))))),
         w\<lparr>store := fst (run_statement ext query (store w)),
           trace := trace w @ [Connected, Cursor_opened, Executed query, Committed,
                               Cursor_closed, Connection_closed]\<rparr>)"
    using execute_query_accepted [of ext query fetch w]
    by (simp add: statement_events_def del: run_statement.simps)
  have c2: "\<forall>result w'. execute_query ext w query fetch = (Inr result, w') \<longrightarrow>
         accepted ext query \<and>
         (fetch \<longrightarrow> cur_description (snd (run_statement ext query (store w))) \<noteq> None)"
    using execute_query_returns [of ext w query fetch] by blast
  have c3: "\<forall>e. fails ext Connecting = None \<and> fails ext (Executing query) = Some e \<longrightarrow>
         execute_query ext w query fetch =
           (case fails ext (Rolling_back query) of
              None \<Rightarrow>
                (Inl e, w\<lparr>trace := trace w @ [Connected, Cursor_opened, Rolled_back,
                                                Cursor_closed, Connection_closed]\<rparr>)
            | Some e' \<Rightarrow>
                (Inl e', w\<lparr>trace := trace w @ [Connected, Cursor_opened,
                                                 Cursor_closed, Connection_closed]\<rparr>))"
    by (simp add: execute_query_def get_db_connection_def Let_def try_execute_statement_fails
        split: option.splits)
  have c4: "\<forall>e w'. execute_query ext w query fetch = (Inl e, w') \<longrightarrow> store w' = store w"
    by (auto simp: execute_query_def get_db_connection_def Let_def
        split: option.splits prod.splits sum.splits)
  have c5: "fails ext Connecting = None \<longrightarrow>
         (\<exists>evs. trace (snd (execute_query ext w query fetch)) =
                  trace w @ [Connected, Cursor_opened] @ evs @ [Cursor_closed, Connection_closed])"
    by (auto simp: execute_query_def get_db_connection_def Let_def
        split: option.splits prod.splits sum.splits)
  have c6: "open_connections (trace (snd (execute_query ext w query fetch))) = open_connections (trace w)"
    by (auto simp: execute_query_def get_db_connection_def Let_def open_connections_def
        dest: try_execute_events split: option.splits prod.splits sum.splits)
  have c7: "open_cursors (trace (snd (execute_query ext w query fetch))) = open_cursors (trace w)"
    by (auto simp: execute_query_def get_db_connection_def Let_def open_cursors_def
        dest: try_execute_events split: option.splits prod.splits sum.splits)
  show ?thesis
    by (intro conjI) (rule c1, rule c2, rule c3, rule c4, rule c5, rule c6, rule c7)
qed

theorem execute_query_commit_rollback_release_witness:
  "accepted psycopg2 (Select_language_owner (JStr ''lang-1''))
   \<and> cur_description (snd (run_statement psycopg2 (Select_language_owner (JStr ''lang-1'')) sample_db))
        = Some [''user_id'']
   \<and> execute_query psycopg2 sample_world (Select_language_owner (JStr ''lang-1'')) True =
        (Inr (Rows [[(''user_id'', JStr ''alice'')]]),
         \<lparr>store = sample_db,
          trace = [Connected, Cursor_opened, Executed (Select_language_owner (JStr ''lang-1'')),
                   Committed, Cursor_closed, Connection_closed]\<rparr>)
   \<and> accepted psycopg2 (Delete_translations (JStr ''word-1''))
   \<and> execute_query psycopg2 sample_world (Delete_translations (JStr ''word-1'')) False =
        (Inr (Rowcount 2),
         \<lparr>store = sample_db\<lparr>translations_table := [last (translations_table sample_db)]\<rparr>,
          trace = [Connected, Cursor_opened, Executed (Delete_translations (JStr ''word-1'')),
                   Committed, Cursor_closed, Connection_closed]\<rparr>)
   \<and> fails statement_timeout Connecting = None
   \<and> fails statement_timeout (Executing (Delete_translations (JStr ''word-1''))) =
        Some (OperationalError ''canceling statement due to statement timeout'')
   \<and> fails statement_timeout (Rolling_back (Delete_translations (JStr ''word-1''))) = None
   \<and> execute_query statement_timeout sample_world (Delete_translations (JStr ''word-1'')) False =
        (Inl (OperationalError ''canceling statement due to statement timeout''),
         \<lparr>store = sample_db,
          trace = [Connected, Cursor_opened, Rolled_back, Cursor_closed, Connection_closed]\<rparr>)"
proof -
  let ?s = "Select_language_owner (JStr ''lang-1'')"
  let ?q = "Delete_translations (JStr ''word-1'')"
  have acc: "accepted psycopg2 query" for query
    by (simp add: accepted_def psycopg2_def)
  have w: "store sample_world = sample_db" "trace sample_world = []"
    by (simp_all add: sample_world_def)
  have sel: "run_statement psycopg2 ?s sample_db =
      (sample_db, \<lparr>cur_description = Some [''user_id''], cur_rows = [[JStr ''alice'']],
                   cur_rowcount = 1\<rparr>)"
    by code_simp
  have del: "run_statement psycopg2 ?q sample_db =
      (sample_db\<lparr>translations_table := [last (translations_table sample_db)]\<rparr>,
       \<lparr>cur_description = None, cur_rows = [], cur_rowcount = 2\<rparr>)"
    by code_simp
  have pd: "py_dict [(''user_id'', JStr ''alice'')] = [(''user_id'', JStr ''alice'')]"
    by (simp add: py_dict_def)
  have h: "fails statement_timeout Connecting = None"
    "fails statement_timeout (Executing ?q) =
       Some (OperationalError ''canceling statement due to statement timeout'')"
    "fails statement_timeout (Rolling_back ?q) = None"
    by (simp_all add: statement_timeout_def psycopg2_def)
  note t1 = execute_query_commit_rollback_release [of psycopg2 ?s True sample_world]
  note t2 = execute_query_commit_rollback_release [of psycopg2 ?q False sample_world]
  note t3 = execute_query_commit_rollback_release [of statement_timeout ?q False sample_world]
  have r1: "execute_query psycopg2 sample_world ?s True =
        (Inr (Rows [[(''user_id'', JStr ''alice'')]]),
         \<lparr>store = sample_db,
          trace = [Connected, Cursor_opened, Executed ?s, Committed, Cursor_closed, Connection_closed]\<rparr>)"
    using t1 [THEN conjunct1] acc [of ?s]
    by (simp add: w sel pd sample_world_def del: run_statement.simps)
  have r2: "execute_query psycopg2 sample_world ?q False =
        (Inr (Rowcount 2),
         \<lparr>store = sample_db\<lparr>translations_table := [last (translations_table sample_db)]\<rparr>,
          trace = [Connected, Cursor_opened, Executed ?q, Committed, Cursor_closed, Connection_closed]\<rparr>)"
    using t2 [THEN conjunct1] acc [of ?q]
    by (simp add: w del sample_world_def del: run_statement.simps)
  have r3: "execute_query statement_timeout sample_world ?q False =
        (Inl (OperationalError ''canceling statement due to statement timeout''),
         \<lparr>store = sample_db,
          trace = [Connected, Cursor_opened, Rolled_back, Cursor_closed, Connection_closed]\<rparr>)"
    using t3 [THEN conjunct2, THEN conjunct2, THEN conjunct1, rule_format,
        of "OperationalError ''canceling statement due to statement timeout''"] h
    by (simp add: sample_world_def)
  have cd: "cur_description (snd (run_statement psycopg2 ?s sample_db)) = Some [''user_id'']"
    by (simp add: sel del: run_statement.simps)
  show ?thesis
    using acc [of ?s] acc [of ?q] h r1 r2 r3 cd by (simp del: run_statement.simps)
qed

text \<open>
  Claim C8 as stated says that on every failure of the statement the same error is raised
  again.  When the connection is lost while the statement runs, \<open>connection.rollback()\<close>
  in the \<open>except\<close> branch raises as well, and it is that error which leaves the call.
\<close>

theorem execute_query_rollback_raises:
  "fails connection_lost (Executing (Delete_translations (JStr ''word-1''))) =
     Some (OperationalError ''server closed the connection unexpectedly'')
   \<and> execute_query connection_lost sample_world (Delete_translations (JStr ''word-1'')) False =
       (Inl (InterfaceError ''connection already closed''),
        \<lparr>store = sample_db,
         trace = [Connected, Cursor_opened, Cursor_closed, Connection_closed]\<rparr>)"
  by code_simp

subsection \<open>extract\_body\<close>

lemma loads_empty_object: "json_loads ''{}'' = Inr (JObj [])"
  by code_simp

text \<open>
  Claim C9, as amended.  \<open>extract_body\<close> returns the empty dict when the event has no
  \<open>body\<close> or the body is the empty string; for a body that is a non-empty string it
  does what \<open>json.loads\<close> does on it, returning the decoded value or raising the
  decoder's error; a body that is not a string is returned unchanged (a null body as
  null).
\<close>

theorem extract_body_cases:
  "(map_of event ''body'' = None \<longrightarrow> extract_body event = Inr (JObj []))
   \<and> (map_of event ''body'' = Some (JStr []) \<longrightarrow> extract_body event = Inr (JObj []))
   \<and> (\<forall>s. map_of event ''body'' = Some (JStr s) \<and> s \<noteq> [] \<longrightarrow> extract_body event = json_loads s)
   \<and> (\<forall>b. map_of event ''body'' = Some b \<and> (\<forall>s. b \<noteq> JStr s) \<longrightarrow> extract_body event = Inr b)"
  by (auto simp: extract_body_def get_or_def loads_empty_object split: json.splits)

theorem extract_body_cases_witness:
  "extract_body [(''httpMethod'', JStr ''GET'')] = Inr (JObj [])
   \<and> extract_body [(''httpMethod'', JStr ''POST''), (''body'', JStr '''')] = Inr (JObj [])
   \<and> extract_body [(''httpMethod'', JStr ''POST''), (''body'', JStr ''{\"name\": \"Eldarin\"}'')] =
        Inr (JObj [(''name'', JStr ''Eldarin'')])
   \<and> extract_body [(''httpMethod'', JStr ''POST''), (''body'', JNull)] = Inr JNull"
proof -
  have l: "json_loads ''{\"name\": \"Eldarin\"}'' = Inr (JObj [(''name'', JStr ''Eldarin'')])"
    by code_simp
  show ?thesis
    using extract_body_cases [of "[(''httpMethod'', JStr ''GET'')]"]
      extract_body_cases [of "[(''httpMethod'', JStr ''POST''), (''body'', JStr '''')]"]
      extract_body_cases [of "[(''httpMethod'', JStr ''POST''), (''body'', JStr ''{\"name\": \"Eldarin\"}'')]"]
      extract_body_cases [of "[(''httpMethod'', JStr ''POST''), (''body'', JNull)]"]
    by (simp add: l)
qed

text \<open>
  Claim C9 as stated says that \<open>extract_body\<close> never raises.  It raises on a body that
  is not a JSON document.
\<close>

theorem extract_body_raises:
  "extract_body [(''httpMethod'', JStr ''POST''), (''body'', JStr ''{'')] =
     Inl (JSONDecodeError ''Expecting value'')"
proof -
  have "json_loads ''{'' = Inl (JSONDecodeError ''Expecting value'')"
    by code_simp
  then show ?thesis
    by (simp add: extract_body_def get_or_def)
qed

section \<open>Properties of the resource operations\<close>

subsection \<open>Auxiliary facts\<close>

lemma first_missing_split:
  "required = pre @ f # post \<Longrightarrow> \<forall>g \<in> set pre. has_key data g \<Longrightarrow> \<not> has_key data f \<Longrightarrow>
   first_missing required data = Some f"
  unfolding first_missing_def by (induction pre arbitrary: required) auto

lemma execute_query_read_only:
  assumes "accepted ext query"
    and "run_statement ext query (store w) = (store w, result_set columns rs)"
  shows "execute_query ext w query True =
     (Inr (Rows (map (\<lambda>r. py_dict (zip columns (map (col r) columns))) rs)),
      w\<lparr>trace := trace w @ statement_events query\<rparr>)"
  using assms
  by (simp add: execute_query_def get_db_connection_def try_execute_def accepted_def
      result_set_def fetchall_def statement_events_def comp_def)

lemma execute_query_store:
  "execute_query ext w query fetch = (r, w') \<Longrightarrow>
     store w' = (case r of Inr _ \<Rightarrow> fst (run_statement ext query (store w)) | Inl _ \<Rightarrow> store w)"
  by (auto simp: execute_query_def get_db_connection_def try_execute_def Let_def
      split: option.splits prod.splits sum.splits if_splits)

lemma some_field_language:
  "\<exists>f \<in> set [''name'', ''phonemes'', ''alphabet_mappings'', ''syllables'', ''rules'']. has_key data f \<Longrightarrow>
   fst (add_field data ''rules'' c5 (add_field data ''syllables'' c4 (add_field data ''alphabet_mappings'' c3
     (add_field data ''phonemes'' c2 (add_field data ''name'' c1 ([], [])))))) \<noteq> []"
  by (auto simp: add_field_def)

lemma select_language_owner_run:
  "run_statement ext (Select_language_owner lid) d = (d, result_set [''user_id''] (languages_with_id d lid))"
  by (simp add: languages_with_id_def)


lemma py_dict_single: "py_dict [(k, v)] = [(k, v)]"
  by (simp add: py_dict_def)

lemma execute_query_trace:
  "execute_query ext w query fetch = (r, w') \<Longrightarrow>
     set (trace w') \<subseteq> set (trace w) \<union>
       {Connected, Cursor_opened, Executed query, Committed, Rolled_back, Cursor_closed, Connection_closed}"
  by (auto simp: execute_query_def get_db_connection_def try_execute_def Let_def
      split: option.splits prod.splits sum.splits if_splits)

lemma select_word_of_user_run:
  "run_statement ext (Select_word_of_user wid uid) d =
     (d, result_set [''id'']
           [w. w \<leftarrow> words_table d, l \<leftarrow> languages_table d,
               sql_eq (col w ''language_id'') (col l ''id''),
               sql_eq (col w ''id'') wid \<and> sql_eq (col l ''user_id'') uid])"
  by simp

lemma select_word_of_user_empty:
  "[w. w \<leftarrow> words_table d, l \<leftarrow> languages_table d,
       sql_eq (col w ''language_id'') (col l ''id''),
       sql_eq (col w ''id'') wid \<and> sql_eq (col l ''user_id'') uid] = [] \<longleftrightarrow> \<not> word_of_user d wid uid"
  by (auto simp: word_of_user_def list_ex_iff)

lemma no_fields_word:
  "\<forall>f \<in> set [''word'', ''ipa'', ''pos'', ''is_root'', ''embedding'']. \<not> has_key data f \<Longrightarrow>
   update_word_fields ext w wid data = (Inr (error_response 400 ''No fields to update''), w)"
  by (simp add: update_word_fields_def add_field_def respond_def)

lemma status_error_response [simp]: "statusCode (error_response n m) = n"
  by (simp add: error_response_def lambda_response_def)

lemma update_words_translations:
  "translations_table (fst (run_statement ext (Update_words fragments params) d)) = translations_table d"
  by (simp add: Let_def case_prod_beta)

lemma respond_first_world: "respond_first n result w = (r, w') \<Longrightarrow> w' = w"
  by (auto simp: respond_first_def respond_def split: sum.splits)

subsection \<open>Creation with a required field missing\<close>

text \<open>
  Claim C4.  When a required field of the payload is missing, the first one missing in the
  order (Language: \<open>user_id\<close>, \<open>name\<close>; Word: \<open>language_id\<close>, \<open>word\<close>, \<open>ipa\<close>;
  User: \<open>user_id\<close>, \<open>email\<close>, \<open>username\<close>) being \<open>f\<close>, the create operation returns
  the 400 response with the message \<open>Missing required field: f\<close> and leaves the world as
  it was: the database is unchanged and the trace has no new event, so no statement was
  sent and no connection taken.
\<close>

theorem create_rejects_missing_field:
  "(\<forall>pre f post. [''user_id'', ''name''] = pre @ f # post \<and> (\<forall>g \<in> set pre. has_key data g) \<and> \<not> has_key data f \<longrightarrow>
      create_language ext w data = (Inr (error_response 400 (''Missing required field: '' @ f)), w))
   \<and> (\<forall>pre f post. [''language_id'', ''word'', ''ipa''] = pre @ f # post \<and> (\<forall>g \<in> set pre. has_key data g) \<and> \<not> has_key data f \<longrightarrow>
      create_word ext w data = (Inr (error_response 400 (''Missing required field: '' @ f)), w))
   \<and> (\<forall>pre f post. [''user_id'', ''email'', ''username''] = pre @ f # post \<and> (\<forall>g \<in> set pre. has_key data g) \<and> \<not> has_key data f \<longrightarrow>
      create_or_update_user ext w data = (Inr (error_response 400 (''Missing required field: '' @ f)), w))"
proof (intro conjI allI impI)
  fix pre f post
  assume "[''user_id'', ''name''] = pre @ f # post \<and> (\<forall>g \<in> set pre. has_key data g) \<and> \<not> has_key data f"
  then have "first_missing [''user_id'', ''name''] data = Some f"
    using first_missing_split by blast
  then show "create_language ext w data = (Inr (error_response 400 (''Missing required field: '' @ f)), w)"
    by (simp add: create_language_def respond_def)
next
  fix pre f post
  assume "[''language_id'', ''word'', ''ipa''] = pre @ f # post \<and> (\<forall>g \<in> set pre. has_key data g) \<and> \<not> has_key data f"
  then have "first_missing [''language_id'', ''word'', ''ipa''] data = Some f"
    using first_missing_split by blast
  then show "create_word ext w data = (Inr (error_response 400 (''Missing required field: '' @ f)), w)"
    by (simp add: create_word_def respond_def)
next
  fix pre f post
  assume "[''user_id'', ''email'', ''username''] = pre @ f # post \<and> (\<forall>g \<in> set pre. has_key data g) \<and> \<not> has_key data f"
  then have "first_missing [''user_id'', ''email'', ''username''] data = Some f"
    using first_missing_split by blast
  then show "create_or_update_user ext w data = (Inr (error_response 400 (''Missing required field: '' @ f)), w)"
    by (simp add: create_or_update_user_def respond_def)
qed


theorem create_rejects_missing_field_witness:
  "create_language psycopg2 sample_world [(''name'', JStr ''Quenya'')] =
     (Inr (error_response 400 ''Missing required field: user_id''), sample_world)
   \<and> create_word psycopg2 sample_world [(''language_id'', JStr ''lang-1''), (''ipa'', JStr ''nen'')] =
     (Inr (error_response 400 ''Missing required field: word''), sample_world)
   \<and> create_or_update_user psycopg2 sample_world
       [(''user_id'', JStr ''carol''), (''email'', JStr ''carol@example.org'')] =
     (Inr (error_response 400 ''Missing required field: username''), sample_world)"
proof -
  let ?l = "[(''name'', JStr ''Quenya'')]"
  let ?w = "[(''language_id'', JStr ''lang-1''), (''ipa'', JStr ''nen'')]"
  let ?u = "[(''user_id'', JStr ''carol''), (''email'', JStr ''carol@example.org'')]"
  have l: "[''user_id'', ''name''] = [] @ ''user_id'' # [''name''] \<and>
      (\<forall>g \<in> set []. has_key ?l g) \<and> \<not> has_key ?l ''user_id''"
    by (simp add: has_key_def)
  have w: "[''language_id'', ''word'', ''ipa''] = [''language_id''] @ ''word'' # [''ipa''] \<and>
      (\<forall>g \<in> set [''language_id'']. has_key ?w g) \<and> \<not> has_key ?w ''word''"
    by (simp add: has_key_def)
  have u: "[''user_id'', ''email'', ''username''] = [''user_id'', ''email''] @ ''username'' # [] \<and>
      (\<forall>g \<in> set [''user_id'', ''email'']. has_key ?u g) \<and> \<not> has_key ?u ''username''"
    by (simp add: has_key_def)
  note t = create_rejects_missing_field [of ?l psycopg2 sample_world]
    create_rejects_missing_field [of ?w psycopg2 sample_world]
    create_rejects_missing_field [of ?u psycopg2 sample_world]
  have "create_language psycopg2 sample_world ?l =
     (Inr (error_response 400 (''Missing required field: '' @ ''user_id'')), sample_world)"
    by (rule t(1) [THEN conjunct1, rule_format, where pre = "[]" and post = "[''name'']", OF l])
  moreover
  have "create_word psycopg2 sample_world ?w =
     (Inr (error_response 400 (''Missing required field: '' @ ''word'')), sample_world)"
    by (rule t(2) [THEN conjunct2, THEN conjunct1, rule_format,
          where pre = "[''language_id'']" and post = "[''ipa'']", OF w])
  moreover
  have "create_or_update_user psycopg2 sample_world ?u =
     (Inr (error_response 400 (''Missing required field: '' @ ''username'')), sample_world)"
    by (rule t(3) [THEN conjunct2, THEN conjunct2, rule_format,
          where pre = "[''user_id'', ''email'']" and post = "[]", OF u])
  ultimately show ?thesis by simp
qed

subsection \<open>The ownership check of a language update\<close>

text \<open>
  Claim C6.  For an update of a language with an identifier, a body that has a
  \<open>user_id\<close> and at least one recognized field, and an ownership query that is
  accepted: when no row has the identifier the response is 404; when there is one and
  its owner differs from the \<open>user_id\<close> of the body the response is 403; in both cases
  the database is unchanged.
\<close>

theorem update_language_owner_check:
  assumes id: "truthy language_id"
    and uid: "has_key data ''user_id''"
    and field: "\<exists>f \<in> set [''name'', ''phonemes'', ''alphabet_mappings'', ''syllables'', ''rules'']. has_key data f"
    and acc: "accepted ext (Select_language_owner language_id)"
  shows "(languages_with_id (store w) language_id = [] \<longrightarrow>
            fst (update_language ext w language_id data) = Inr (error_response 404 ''Language not found'') \<and>
            store (snd (update_language ext w language_id data)) = store w)
    \<and> (languages_with_id (store w) language_id \<noteq> [] \<and>
         col (hd (languages_with_id (store w) language_id)) ''user_id'' \<noteq> get_or data ''user_id'' JNull \<longrightarrow>
            fst (update_language ext w language_id data) = Inr (error_response 403 ''Access denied'') \<and>
            store (snd (update_language ext w language_id data)) = store w)"
proof -
  let ?q = "Select_language_owner language_id"
  let ?rs = "languages_with_id (store w) language_id"
  have ex: "execute_query ext w ?q True =
     (Inr (Rows (map (\<lambda>r. py_dict (zip [''user_id''] (map (col r) [''user_id'']))) ?rs)),
      w\<lparr>trace := trace w @ statement_events ?q\<rparr>)"
    by (rule execute_query_read_only [OF acc select_language_owner_run])
  have nf: "fst (add_field data ''rules'' id (add_field data ''syllables'' id
      (add_field data ''alphabet_mappings'' (\<lambda>v. JStr (json_dumps ext v))
        (add_field data ''phonemes'' (\<lambda>v. JStr (json_dumps ext v))
          (add_field data ''name'' id ([], [])))))) \<noteq> []"
    by (rule some_field_language [OF field])
  show ?thesis
  proof (intro conjI impI)
    assume e: "?rs = []"
    then show "fst (update_language ext w language_id data) = Inr (error_response 404 ''Language not found'')"
      using id uid nf by (simp add: update_language_def Let_def ex and_then_def is_empty_def respond_def)
    from e show "store (snd (update_language ext w language_id data)) = store w"
      using id uid nf by (simp add: update_language_def Let_def ex and_then_def is_empty_def respond_def)
  next
    assume ne: "?rs \<noteq> [] \<and> col (hd ?rs) ''user_id'' \<noteq> get_or data ''user_id'' JNull"
    then obtain l ls where rs: "?rs = l # ls" by (cases ?rs) auto
    with ne have d: "col l ''user_id'' \<noteq> get_or data ''user_id'' JNull" by simp
    show "fst (update_language ext w language_id data) = Inr (error_response 403 ''Access denied'')"
      using id uid nf d
      by (simp add: update_language_def Let_def ex and_then_def is_empty_def respond_def rs
          first_row_def py_dict_single subscript_def)
    show "store (snd (update_language ext w language_id data)) = store w"
      using id uid nf d
      by (simp add: update_language_def Let_def ex and_then_def is_empty_def respond_def rs
          first_row_def py_dict_single subscript_def)
  qed
qed

theorem update_language_owner_check_witness:
  "truthy (JStr ''lang-1'') \<and> truthy (JStr ''lang-9'')
   \<and> has_key [(''user_id'', JStr ''bob''), (''name'', JStr ''Mine'')] ''user_id''
   \<and> has_key [(''user_id'', JStr ''bob''), (''name'', JStr ''Mine'')] ''name''
   \<and> accepted psycopg2 (Select_language_owner (JStr ''lang-1''))
   \<and> languages_with_id sample_db (JStr ''lang-9'') = []
   \<and> map (\<lambda>l. col l ''user_id'') (languages_with_id sample_db (JStr ''lang-1'')) = [JStr ''alice'']
   \<and> fst (update_language psycopg2 sample_world (JStr ''lang-1'')
            [(''user_id'', JStr ''bob''), (''name'', JStr ''Mine'')]) =
        Inr (error_response 403 ''Access denied'')
   \<and> store (snd (update_language psycopg2 sample_world (JStr ''lang-1'')
            [(''user_id'', JStr ''bob''), (''name'', JStr ''Mine'')])) = sample_db
   \<and> fst (update_language psycopg2 sample_world (JStr ''lang-9'')
            [(''user_id'', JStr ''bob''), (''name'', JStr ''Mine'')]) =
        Inr (error_response 404 ''Language not found'')"
proof -
  let ?b = "[(''user_id'', JStr ''bob''), (''name'', JStr ''Mine'')]"
  have k: "has_key ?b ''user_id''" "has_key ?b ''name''"
    by (simp_all add: has_key_def)
  have f: "\<exists>f \<in> set [''name'', ''phonemes'', ''alphabet_mappings'', ''syllables'', ''rules'']. has_key ?b f"
    using k by simp
  have a: "accepted psycopg2 (Select_language_owner lid)" for lid
    by (simp add: accepted_def psycopg2_def)
  have t: "truthy (JStr ''lang-1'')" "truthy (JStr ''lang-9'')" by simp_all
  have none: "languages_with_id (store sample_world) (JStr ''lang-9'') = []"
    by code_simp
  have other: "languages_with_id (store sample_world) (JStr ''lang-1'') \<noteq> [] \<and>
      col (hd (languages_with_id (store sample_world) (JStr ''lang-1''))) ''user_id'' \<noteq>
        get_or ?b ''user_id'' JNull"
    by code_simp
  have s: "store sample_world = sample_db" by (simp add: sample_world_def)
  have owner: "map (\<lambda>l. col l ''user_id'') (languages_with_id sample_db (JStr ''lang-1'')) = [JStr ''alice'']"
    by code_simp
  from update_language_owner_check [OF t(1) k(1) f a, of sample_world] other
  have "fst (update_language psycopg2 sample_world (JStr ''lang-1'') ?b) =
          Inr (error_response 403 ''Access denied'') \<and>
        store (snd (update_language psycopg2 sample_world (JStr ''lang-1'') ?b)) = store sample_world"
    by blast
  moreover from update_language_owner_check [OF t(2) k(1) f a, of sample_world] none
  have "fst (update_language psycopg2 sample_world (JStr ''lang-9'') ?b) =
          Inr (error_response 404 ''Language not found'')"
    by blast
  ultimately show ?thesis
    using k a [of "JStr ''lang-1''"] none owner t by (simp add: s)
qed

subsection \<open>Update without a recognized field\<close>

text \<open>
  Claim C7, as amended.  When the body has none of the recognized fields: the update of a
  language and the update of a user return a 400 response and leave the world as it was;
  the update of a word leaves the database unchanged and sends no statement but the
  ownership query; it returns a 400 response when the identifier is missing or the body
  has no \<open>user_id\<close>, and otherwise, the ownership query being accepted, a 400 response
  when the word belongs to a language of that user and the 404 response
  \<open>Word not found or access denied\<close> when it does not.
\<close>

theorem update_without_fields:
  "((\<forall>f \<in> set [''name'', ''phonemes'', ''alphabet_mappings'', ''syllables'', ''rules'']. \<not> has_key data f) \<longrightarrow>
      update_language ext w ident data =
        (Inr (error_response 400
           (if truthy ident then ''No fields to update'' else ''Language ID is required'')), w))
   \<and> ((\<forall>f \<in> set [''email'', ''username'']. \<not> has_key data f) \<longrightarrow>
      update_user ext w ident data =
        (Inr (error_response 400
           (if truthy ident then ''No fields to update'' else ''User ID is required'')), w))
   \<and> ((\<forall>f \<in> set [''word'', ''ipa'', ''pos'', ''is_root'', ''embedding'']. \<not> has_key data f) \<longrightarrow>
        store (snd (update_word ext w ident data)) = store w
      \<and> set (trace (snd (update_word ext w ident data))) \<subseteq> set (trace w) \<union>
          {Connected, Cursor_opened, Executed (Select_word_of_user ident (get_or data ''user_id'' JNull)),
           Committed, Rolled_back, Cursor_closed, Connection_closed}
      \<and> (\<not> truthy ident \<or> \<not> has_key data ''user_id'' \<longrightarrow>
           update_word ext w ident data =
             (Inr (error_response 400
                (if truthy ident then ''No fields to update'' else ''Word ID is required'')), w))
      \<and> (truthy ident \<and> has_key data ''user_id'' \<and>
           accepted ext (Select_word_of_user ident (get_or data ''user_id'' JNull)) \<longrightarrow>
           fst (update_word ext w ident data) =
             Inr (if word_of_user (store w) ident (get_or data ''user_id'' JNull)
                  then error_response 400 ''No fields to update''
                  else error_response 404 ''Word not found or access denied'')))"
proof (intro conjI impI)
  assume "\<forall>f \<in> set [''name'', ''phonemes'', ''alphabet_mappings'', ''syllables'', ''rules'']. \<not> has_key data f"
  then show "update_language ext w ident data =
        (Inr (error_response 400
           (if truthy ident then ''No fields to update'' else ''Language ID is required'')), w)"
    by (simp add: update_language_def add_field_def respond_def)
next
  assume "\<forall>f \<in> set [''email'', ''username'']. \<not> has_key data f"
  then show "update_user ext w ident data =
        (Inr (error_response 400
           (if truthy ident then ''No fields to update'' else ''User ID is required'')), w)"
    by (simp add: update_user_def add_field_def respond_def)
next
  let ?q = "Select_word_of_user ident (get_or data ''user_id'' JNull)"
  assume none: "\<forall>f \<in> set [''word'', ''ipa'', ''pos'', ''is_root'', ''embedding'']. \<not> has_key data f"
  note nf = no_fields_word [OF none]
  obtain r w1 where ex: "execute_query ext w ?q True = (r, w1)" by (cases "execute_query ext w ?q True")
  have st: "store w1 = store w"
    using execute_query_store [OF ex] by (simp split: sum.splits)
  have tr: "set (trace w1) \<subseteq> set (trace w) \<union>
          {Connected, Cursor_opened, Executed ?q, Committed, Rolled_back, Cursor_closed, Connection_closed}"
    by (rule execute_query_trace [OF ex])
  have cases: "snd (update_word ext w ident data) = w \<or> snd (update_word ext w ident data) = w1"
    by (cases r) (simp_all add: update_word_def nf ex and_then_def respond_def)
  show "store (snd (update_word ext w ident data)) = store w"
    using cases st by auto
  show "set (trace (snd (update_word ext w ident data))) \<subseteq> set (trace w) \<union>
          {Connected, Cursor_opened, Executed ?q, Committed, Rolled_back, Cursor_closed, Connection_closed}"
    using cases tr by auto
  show "update_word ext w ident data =
             (Inr (error_response 400
                (if truthy ident then ''No fields to update'' else ''Word ID is required'')), w)"
    if "\<not> truthy ident \<or> \<not> has_key data ''user_id''"
    using that by (auto simp: update_word_def nf respond_def)
  show "fst (update_word ext w ident data) =
             Inr (if word_of_user (store w) ident (get_or data ''user_id'' JNull)
                  then error_response 400 ''No fields to update''
                  else error_response 404 ''Word not found or access denied'')"
    if h: "truthy ident \<and> has_key data ''user_id'' \<and> accepted ext ?q"
  proof -
    from h have acc: "accepted ext ?q" by simp
    note ro = execute_query_read_only [OF acc select_word_of_user_run]
    show ?thesis
      using h select_word_of_user_empty [where d = "store w" and wid = ident and uid = "get_or data ''user_id'' JNull"]
      by (simp add: update_word_def ro and_then_def is_empty_def respond_def nf)
  qed
qed


theorem update_without_fields_witness:
  "update_language psycopg2 sample_world (JStr ''lang-1'') [(''user_id'', JStr ''alice'')] =
     (Inr (error_response 400 ''No fields to update''), sample_world)
   \<and> update_user psycopg2 sample_world (JStr ''alice'') [(''user_id'', JStr ''alice'')] =
     (Inr (error_response 400 ''No fields to update''), sample_world)
   \<and> update_word psycopg2 sample_world (JStr ''word-1'') [(''note'', JStr ''unchanged'')] =
     (Inr (error_response 400 ''No fields to update''), sample_world)
   \<and> word_of_user sample_db (JStr ''word-1'') (JStr ''alice'')
   \<and> fst (update_word psycopg2 sample_world (JStr ''word-1'') [(''user_id'', JStr ''alice'')]) =
       Inr (error_response 400 ''No fields to update'')
   \<and> store (snd (update_word psycopg2 sample_world (JStr ''word-1'') [(''user_id'', JStr ''alice'')])) =
       sample_db"
proof -
  let ?a = "[(''user_id'', JStr ''alice'')]"
  let ?i = "[(''note'', JStr ''unchanged'')]"
  have n: "\<forall>f \<in> set [''name'', ''phonemes'', ''alphabet_mappings'', ''syllables'', ''rules'']. \<not> has_key ?a f"
    "\<forall>f \<in> set [''email'', ''username'']. \<not> has_key ?a f"
    "\<forall>f \<in> set [''word'', ''ipa'', ''pos'', ''is_root'', ''embedding'']. \<not> has_key ?a f"
    "\<forall>f \<in> set [''word'', ''ipa'', ''pos'', ''is_root'', ''embedding'']. \<not> has_key ?i f"
    by (simp_all add: has_key_def)
  have k: "has_key ?a ''user_id''" "\<not> has_key ?i ''user_id''" "get_or ?a ''user_id'' JNull = JStr ''alice''"
    by (simp_all add: has_key_def get_or_def)
  have t: "truthy (JStr ''lang-1'')" "truthy (JStr ''alice'')" "truthy (JStr ''word-1'')" by simp_all
  have a: "accepted psycopg2 (Select_word_of_user (JStr ''word-1'') (JStr ''alice''))"
    by (simp add: accepted_def psycopg2_def)
  have o: "word_of_user (store sample_world) (JStr ''word-1'') (JStr ''alice'')"
    by code_simp
  have s: "store sample_world = sample_db" by (simp add: sample_world_def)
  from update_without_fields [of ?a psycopg2 sample_world "JStr ''lang-1''"] n(1) t
  have "update_language psycopg2 sample_world (JStr ''lang-1'') ?a =
     (Inr (error_response 400 ''No fields to update''), sample_world)"
    by simp
  moreover from update_without_fields [of ?a psycopg2 sample_world "JStr ''alice''"] n(2) t
  have "update_user psycopg2 sample_world (JStr ''alice'') ?a =
     (Inr (error_response 400 ''No fields to update''), sample_world)"
    by simp
  moreover from update_without_fields [of ?i psycopg2 sample_world "JStr ''word-1''"] n(4) k(2) t
  have "update_word psycopg2 sample_world (JStr ''word-1'') ?i =
     (Inr (error_response 400 ''No fields to update''), sample_world)"
    by simp
  moreover from update_without_fields [of ?a psycopg2 sample_world "JStr ''word-1''"] n(3) k(1) a o t
  have "fst (update_word psycopg2 sample_world (JStr ''word-1'') ?a) =
       Inr (error_response 400 ''No fields to update'') \<and>
     store (snd (update_word psycopg2 sample_world (JStr ''word-1'') ?a)) = store sample_world"
    by (simp add: k(3))
  ultimately show ?thesis
    using o by (simp add: s)
qed

text \<open>
  Claim C7 as stated promises a 400 response for every such update.  A word update
  whose body has no recognized field and a \<open>user_id\<close> that does not own the word is
  answered with 404: \<open>update_word\<close> checks the ownership before it looks at the fields.
\<close>

theorem update_word_without_fields_404:
  "fst (update_word psycopg2 sample_world (JStr ''word-1'') [(''user_id'', JStr ''bob'')]) =
     Inr (error_response 404 ''Word not found or access denied'')"
  by code_simp

subsection \<open>Listing the words of a language of another user\<close>




subsection \<open>Replacing the translations of a word\<close>

lemma execute_query_no_result_set:
  assumes "cur_description (snd (run_statement ext query (store w))) = None"
  shows "\<exists>e w'. execute_query ext w query True = (Inl e, w') \<and> store w' = store w"
  using assms
  by (cases "run_statement ext query (store w)")
    (auto simp: execute_query_def get_db_connection_def try_execute_def fetchall_def Let_def
      split: option.splits)

lemma replace_translations_raises:
  assumes "has_key data ''translations''"
  shows "\<exists>e w'. replace_translations ext w wid data = (Inl e, w') \<and> store w' = store w"
proof -
  have "cur_description (snd (run_statement ext (Delete_translations wid) (store w))) = None"
    by (simp add: no_result_set_def)
  from execute_query_no_result_set [OF this] show ?thesis
    by (auto simp: replace_translations_def assms and_then_def)
qed

lemma update_word_fields_translations:
  assumes "has_key data ''translations''" and "update_word_fields ext w wid data = (r, w')"
  shows "translations_table (store w') = translations_table (store w)
       \<and> (\<forall>resp. r = Inr resp \<longrightarrow> statusCode resp \<noteq> 200)"
proof -
  let ?acc = "add_field data ''embedding'' id (add_field data ''is_root'' id (add_field data ''pos'' id
                (add_field data ''ipa'' id (add_field data ''word'' id ([], [])))))"
  let ?q = "Update_words (fst ?acc) (snd ?acc @ [wid])"
  show ?thesis
  proof (cases "fst ?acc = []")
    case True
    with assms(2) show ?thesis
      by (auto simp: update_word_fields_def Let_def respond_def)
  next
    case ne: False
    obtain res w1 where ex: "execute_query ext w ?q True = (res, w1)"
      by (cases "execute_query ext w ?q True")
    have t1: "translations_table (store w1) = translations_table (store w)"
      using execute_query_store [OF ex]
      by (cases res) (simp_all add: update_words_translations del: run_statement.simps)
    show ?thesis
    proof (cases res)
      case (Inl e)
      with assms(2) ne ex t1 show ?thesis
        by (auto simp: update_word_fields_def Let_def and_then_def)
    next
      case (Inr result)
      show ?thesis
      proof (cases "is_empty result")
        case True
        with assms(2) ne ex t1 Inr show ?thesis
          by (auto simp: update_word_fields_def Let_def and_then_def respond_def)
      next
        case False
        from replace_translations_raises [OF assms(1), of ext w1 wid]
        obtain e w2 where rep: "replace_translations ext w1 wid data = (Inl e, w2)"
          and s2: "store w2 = store w1"
          by blast
        with assms(2) ne ex t1 Inr False show ?thesis
          by (auto simp: update_word_fields_def Let_def and_then_def)
      qed
    qed
  qed
qed

text \<open>
  Claim C2.  The claim says that an update whose body has a \<open>translations\<close> list leaves
  exactly the entries of the list with a true \<open>meaning\<close> attached to the word.  The code
  sends the \<open>DELETE\<close> of the old translations through \<open>execute_query\<close> with the default
  \<open>fetch=True\<close>; the statement has no result set, so \<open>cursor.fetchall()\<close> raises,
  \<open>execute_query\<close> rolls the \<open>DELETE\<close> back, and the error leaves \<open>update_word\<close>.  Hence,
  for every call of \<open>update_word\<close> whose body has a \<open>translations\<close> entry, the table of
  translations is afterwards as it was before, and the call never returns the 200
  response.
\<close>

theorem update_word_keeps_translations:
  assumes "has_key data ''translations''" and "update_word ext w word_id data = (r, w')"
  shows "translations_table (store w') = translations_table (store w)
       \<and> (\<forall>resp. r = Inr resp \<longrightarrow> statusCode resp \<noteq> 200)"
proof (cases "truthy word_id \<and> has_key data ''user_id''")
  case False
  with assms(2) update_word_fields_translations [OF assms(1), of ext w word_id r w']
  show ?thesis
    by (auto simp: update_word_def respond_def split: if_splits)
next
  case True
  let ?q = "Select_word_of_user word_id (get_or data ''user_id'' JNull)"
  obtain res w1 where ex: "execute_query ext w ?q True = (res, w1)"
    by (cases "execute_query ext w ?q True")
  have st: "store w1 = store w"
    using execute_query_store [OF ex] by (cases res) simp_all
  show ?thesis
  proof (cases res)
    case (Inl e)
    with assms(2) True ex st show ?thesis
      by (auto simp: update_word_def and_then_def)
  next
    case (Inr result)
    show ?thesis
    proof (cases "is_empty result")
      case e: True
      with assms(2) True ex st Inr show ?thesis
        by (auto simp: update_word_def and_then_def respond_def)
    next
      case False
      with assms(2) True ex Inr have "update_word_fields ext w1 word_id data = (r, w')"
        by (simp add: update_word_def and_then_def)
      from update_word_fields_translations [OF assms(1) this] st show ?thesis
        by simp
    qed
  qed
qed

text \<open>
  The word \<open>word-1\<close> has the translations \<open>water\<close> and \<open>eau\<close>; it is updated with a new
  spelling and the list of the one translation \<open>agua\<close>.  The call raises
  \<open>no results to fetch\<close>, the new spelling is committed, and the two old translations
  are still the ones attached, where the claim requires \<open>agua\<close> alone.
\<close>

theorem update_word_keeps_translations_witness:
  "has_key [(''word'', JStr ''nenya''),
            (''translations'',
               JArr [JObj [(''meaning'', JStr ''agua''), (''language_code'', JStr ''es'')]])]
      ''translations''
   \<and> fst (update_word psycopg2 sample_world (JStr ''word-1'')
            [(''word'', JStr ''nenya''),
             (''translations'',
                JArr [JObj [(''meaning'', JStr ''agua''), (''language_code'', JStr ''es'')]])]) =
       Inl (ProgrammingError ''no results to fetch'')
   \<and> translations_table (store (snd (update_word psycopg2 sample_world (JStr ''word-1'')
            [(''word'', JStr ''nenya''),
             (''translations'',
                JArr [JObj [(''meaning'', JStr ''agua''), (''language_code'', JStr ''es'')]])]))) =
       translations_table sample_db
   \<and> attached sample_db (JStr ''word-1'') =
       [(JStr ''en'', JStr ''water''), (JStr ''fr'', JStr ''eau'')]
   \<and> map (\<lambda>e. (entry_language_code e, entry_meaning e))
         [e \<leftarrow> [JObj [(''meaning'', JStr ''agua''), (''language_code'', JStr ''es'')]].
            truthy (entry_meaning e)] =
       [(JStr ''es'', JStr ''agua'')]
   \<and> map (\<lambda>w. col w ''word'')
         (words_table (store (snd (update_word psycopg2 sample_world (JStr ''word-1'')
            [(''word'', JStr ''nenya''),
             (''translations'',
                JArr [JObj [(''meaning'', JStr ''agua''), (''language_code'', JStr ''es'')]])])))) =
       [JStr ''nenya'']"
proof -
  let ?body = "[(''word'', JStr ''nenya''),
                (''translations'',
                   JArr [JObj [(''meaning'', JStr ''agua''), (''language_code'', JStr ''es'')]])]"
  let ?u = "update_word psycopg2 sample_world (JStr ''word-1'') ?body"
  have hk: "has_key ?body ''translations''"
    by (simp add: has_key_def)
  have u: "?u = (fst ?u, snd ?u)"
    by simp
  have s: "store sample_world = sample_db"
    by (simp add: sample_world_def)
  from update_word_keeps_translations [OF hk u]
  have kept: "translations_table (store (snd ?u)) = translations_table sample_db"
    by (simp only: s)
  have raised: "fst ?u = Inl (ProgrammingError ''no results to fetch'')"
    by code_simp
  have before: "attached sample_db (JStr ''word-1'') =
      [(JStr ''en'', JStr ''water''), (JStr ''fr'', JStr ''eau'')]"
    by code_simp
  have new: "map (\<lambda>e. (entry_language_code e, entry_meaning e))
         [e \<leftarrow> [JObj [(''meaning'', JStr ''agua''), (''language_code'', JStr ''es'')]].
            truthy (entry_meaning e)] =
       [(JStr ''es'', JStr ''agua'')]"
    by code_simp
  have word: "map (\<lambda>w. col w ''word'') (words_table (store (snd ?u))) = [JStr ''nenya'']"
    by code_simp
  show ?thesis
    by (intro conjI) (rule hk, rule raised, rule kept, rule before, rule new, rule word)
qed

text \<open>
  A body with a \<open>translations\<close> list and no recognized field is answered with 400 before
  any statement is sent.
\<close>

lemma update_word_translations_only:
  "update_word psycopg2 sample_world (JStr ''word-1'')
       [(''translations'', JArr [JObj [(''meaning'', JStr ''agua'')]])] =
     (Inr (error_response 400 ''No fields to update''), sample_world)"
  by code_simp


end
